theory Spec2Isabelle
  imports Complex_Main
begin

section \<open>Values and the store\<close>

text \<open>
  JavaScript numbers are modelled as \<^typ>\<open>real\<close>; a value that is \<open>undefined\<close>,
  \<open>null\<close> or \<open>NaN\<close> on the JavaScript side, and \<open>NULL\<close> on the SQL side, is
  \<open>None\<close>. Strings are byte lists, compared bytewise as SQLite's default collation does.
\<close>

datatype jsval = JNum real | JStr string

type_synonym jsobject = "(string \<times> jsval option) list"

datatype error = NotInitialized | TypeError

text \<open>
  One row of table \<open>health_metrics\<close>. The columns \<open>id\<close> (AUTOINCREMENT) and
  \<open>created_at\<close> (wall clock) are written but never read by the code below and are left out.
\<close>

record metric_row =
  metric_type :: string
  metric_source :: string
  metric_date :: "string option"
  metric_value :: "real option"
  metric_unit :: string
  additional_data :: "string option"
  metric_value_converted :: "real option"

text \<open>
  One row of table \<open>apple_health_auto_export\<close>, without its clock columns and the
  serialised payload.
\<close>

record import_row =
  imp_source :: string
  metrics_count :: nat
  workouts_count :: nat
  imp_status :: string
  imp_error_message :: "error option"

record sync_row =
  service :: string
  sync_status :: string
  records_updated :: nat
  sync_error_message :: "error option"

text \<open>
  The database object. \<open>metrics_unique\<close> is the conflict relation of the UNIQUE indexes
  that table \<open>health_metrics\<close> carries in the database file: \<open>metrics_unique new old\<close>
  holds when inserting \<open>new\<close> would violate a uniqueness constraint because of the stored
  row \<open>old\<close>. \<open>createTables\<close> issues \<open>CREATE TABLE IF NOT EXISTS\<close>, so the relation
  of a file that already exists is whatever that file declares.
\<close>

record db =
  isReady :: bool
  metrics_unique :: "metric_row \<Rightarrow> metric_row \<Rightarrow> bool"
  health_metrics :: "metric_row list"
  apple_health_auto_export :: "import_row list"
  health_sync_log :: "sync_row list"

text \<open>
  The \<open>CREATE TABLE\<close> statement of \<open>health_metrics\<close> in \<open>createTables\<close> declares no
  UNIQUE constraint; its only key is the AUTOINCREMENT \<open>id\<close>, which no INSERT supplies.
\<close>

definition createTables_unique :: "metric_row \<Rightarrow> metric_row \<Rightarrow> bool" where
  "createTables_unique new old = False"

text \<open>The state after \<open>initialize\<close> on a database file that did not exist.\<close>

definition initialize :: db where
  "initialize = \<lparr>isReady = True, metrics_unique = createTables_unique,
     health_metrics = [], apple_health_auto_export = [], health_sync_log = []\<rparr>"

text \<open>\<open>INSERT OR IGNORE\<close>: the row is appended unless a uniqueness constraint rejects it.\<close>

definition insert_or_ignore ::
  "(metric_row \<Rightarrow> metric_row \<Rightarrow> bool) \<Rightarrow> metric_row \<Rightarrow> metric_row list \<Rightarrow> metric_row list" where
  "insert_or_ignore uq row tbl = (if list_ex (uq row) tbl then tbl else tbl @ [row])"

section \<open>JSON.stringify on metadata objects\<close>

text \<open>
  The text of a number is produced by the JavaScript engine and is a parameter
  (\<open>num_text\<close>); strings are quoted and escaped as ECMAScript's \<open>QuoteJSONString\<close> does;
  members whose value is \<open>undefined\<close> are omitted.
\<close>

definition hex_digit :: "nat \<Rightarrow> char" where
  "hex_digit n = (if n < 10 then char_of (48 + n) else char_of (87 + n))"

definition json_escape :: "char \<Rightarrow> string" where
  "json_escape c =
     (if c = CHR 0x22 then [CHR 0x5C, CHR 0x22]
      else if c = CHR 0x5C then [CHR 0x5C, CHR 0x5C]
      else if c = CHR 0x08 then [CHR 0x5C, CHR ''b'']
      else if c = CHR 0x09 then [CHR 0x5C, CHR ''t'']
      else if c = CHR 0x0A then [CHR 0x5C, CHR ''n'']
      else if c = CHR 0x0C then [CHR 0x5C, CHR ''f'']
      else if c = CHR 0x0D then [CHR 0x5C, CHR ''r'']
      else if (of_char c :: nat) < 32
        then [CHR 0x5C, CHR ''u'', CHR ''0'', CHR ''0'',
              hex_digit (of_char c div 16), hex_digit (of_char c mod 16)]
      else [c])"

definition json_quote :: "string \<Rightarrow> string" where
  "json_quote s = [CHR 0x22] @ concat (map json_escape s) @ [CHR 0x22]"

fun json_value :: "(real \<Rightarrow> string) \<Rightarrow> jsval \<Rightarrow> string" where
  "json_value num_text (JNum x) = num_text x"
| "json_value num_text (JStr s) = json_quote s"

fun json_members :: "(real \<Rightarrow> string) \<Rightarrow> jsobject \<Rightarrow> string list" where
  "json_members num_text [] = []"
| "json_members num_text ((k, None) # kvs) = json_members num_text kvs"
| "json_members num_text ((k, Some v) # kvs) =
     (json_quote k @ '':'' @ json_value num_text v) # json_members num_text kvs"

fun join_commas :: "string list \<Rightarrow> string" where
  "join_commas [] = []"
| "join_commas [s] = s"
| "join_commas (s # t # ts) = s @ '','' @ join_commas (t # ts)"

definition JSON_stringify :: "(real \<Rightarrow> string) \<Rightarrow> jsobject \<Rightarrow> string" where
  "JSON_stringify num_text obj = ''{'' @ join_commas (json_members num_text obj) @ ''}''"

section \<open>The writer: saveHealthMetric\<close>

text \<open>
  A statement handed to the store is taken to succeed: the rejection of a statement by
  SQLite itself (disk, lock, corrupt file), which \<open>runQuery\<close> would turn into an
  exception, is outside the model. The exceptions that are modelled are the check of
  \<open>isReady\<close> and the TypeError of reading a property of \<open>null\<close>.
\<close>

definition is_energy :: "string \<Rightarrow> bool" where
  "is_energy type \<longleftrightarrow> type = ''active_energy'' \<or> type = ''basal_energy_burned''"

text \<open>
  \<open>convertedValue\<close> of \<open>saveHealthMetric\<close>. A missing value divided by 4.184 is \<open>NaN\<close>,
  which the store keeps as \<open>NULL\<close>.
\<close>

definition convertedValue :: "string \<Rightarrow> string \<Rightarrow> real option \<Rightarrow> real option" where
  "convertedValue type unit v =
     (if type = ''active_energy'' \<or> type = ''basal_energy_burned''
      then (if unit = ''kJ'' then map_option (\<lambda>x. x / 4.184) v else v)
      else v)"

definition metric_values ::
  "(real \<Rightarrow> string) \<Rightarrow> string \<Rightarrow> string \<Rightarrow> string option \<Rightarrow> real option \<Rightarrow> string \<Rightarrow>
     jsobject option \<Rightarrow> metric_row" where
  "metric_values num_text type source date v unit additionalData =
     \<lparr>metric_type = type, metric_source = source, metric_date = date, metric_value = v,
      metric_unit = unit,
      additional_data = map_option (JSON_stringify num_text) additionalData,
      metric_value_converted = convertedValue type unit v\<rparr>"

definition saveHealthMetric ::
  "(real \<Rightarrow> string) \<Rightarrow> string \<Rightarrow> string \<Rightarrow> string option \<Rightarrow> real option \<Rightarrow> string \<Rightarrow>
     jsobject option \<Rightarrow> db \<Rightarrow> error + db" where
  "saveHealthMetric num_text type source date v unit additionalData d =
     (if \<not> isReady d then Inl NotInitialized
      else Inr (d\<lparr>health_metrics :=
                  insert_or_ignore (metrics_unique d)
                    (metric_values num_text type source date v unit additionalData)
                    (health_metrics d)\<rparr>))"

section \<open>The ingest call: saveAutoExportData\<close>

text \<open>
  A data point of the payload, with the fields the code reads. A field the payload omits
  is \<open>None\<close>.
\<close>

record data_point =
  dp_date :: "string option"
  dp_qty :: "real option"
  dp_source :: "string option"
  dp_totalSleep :: "real option"
  dp_deep :: "real option"
  dp_core :: "real option"
  dp_rem :: "real option"
  dp_awake :: "real option"
  dp_inBed :: "real option"
  dp_sleepStart :: "string option"
  dp_sleepEnd :: "string option"
  dp_inBedStart :: "string option"
  dp_inBedEnd :: "string option"
  dp_Avg :: "real option"
  dp_Min :: "real option"
  dp_Max :: "real option"

text \<open>
  \<open>m_data\<close> is \<open>None\<close> when \<open>metric.data\<close> is absent or not an array. An element
  \<open>None\<close> of an array is a JSON \<open>null\<close>: reading a property of it throws a TypeError.
\<close>

record metric =
  m_name :: string
  m_units :: string
  m_data :: "data_point option list option"

record workout =
  w_name :: string
  w_start :: "string option"
  w_duration :: "real option"
  w_end :: "string option"
  w_calories :: "real option"
  w_distance :: "real option"
  w_source :: "string option"

text \<open>
  What \<open>payload.data.metrics\<close> and \<open>payload.data.workouts\<close> can be: absent or
  another falsy value, which the \<open>if\<close> before the loop skips; an array, whose elements
  may be \<open>null\<close>; or a truthy value that \<open>for \<dots> of\<close> cannot iterate (an object, a
  number), on which the loop statement throws a TypeError. Such a value has no
  \<open>length\<close>, so it counts as 0 in the import record.
\<close>

datatype 'a js_array = Absent | NotIterable | Items "'a list"

record payload_data =
  metrics :: "metric option js_array"
  workouts :: "workout option js_array"

record payload =
  data :: "payload_data option"

record save_result =
  importId :: nat
  metricsStored :: nat
  workoutsStored :: nat

text \<open>JavaScript's \<open>x || d\<close> on an optional number and on an optional string.\<close>

definition num_or :: "real option \<Rightarrow> real \<Rightarrow> real" where
  "num_or x d = (case x of None \<Rightarrow> d | Some v \<Rightarrow> if v = 0 then d else v)"

definition str_or :: "string option \<Rightarrow> string \<Rightarrow> string" where
  "str_or x d = (case x of None \<Rightarrow> d | Some s \<Rightarrow> if s = [] then d else s)"

definition logSync :: "string \<Rightarrow> string \<Rightarrow> nat \<Rightarrow> error option \<Rightarrow> db \<Rightarrow> error + db" where
  "logSync svc st n msg d =
     (if \<not> isReady d then Inl NotInitialized
      else Inr (d\<lparr>health_sync_log := health_sync_log d @
                  [\<lparr>service = svc, sync_status = st, records_updated = n,
                    sync_error_message = msg\<rparr>]\<rparr>))"

text \<open>The body of the inner loop over \<open>metric.data\<close>, for one data point.\<close>

definition save_data_point :: "(real \<Rightarrow> string) \<Rightarrow> metric \<Rightarrow> data_point option \<Rightarrow> db \<Rightarrow> error + db" where
  "save_data_point num_text m dpo d =
     (case dpo of
        None \<Rightarrow> Inl TypeError
      | Some dataPoint \<Rightarrow>
          if m_name m = ''sleep_analysis'' then
            saveHealthMetric num_text (m_name m) ''health_auto_export'' (dp_date dataPoint)
              (Some (num_or (dp_totalSleep dataPoint) 0)) (m_units m)
              (Some [(''source'', Some (JStr (str_or (dp_source dataPoint) ''iPhone''))),
                     (''deep'', map_option JNum (dp_deep dataPoint)),
                     (''core'', map_option JNum (dp_core dataPoint)),
                     (''rem'', map_option JNum (dp_rem dataPoint)),
                     (''awake'', map_option JNum (dp_awake dataPoint)),
                     (''inBed'', map_option JNum (dp_inBed dataPoint)),
                     (''sleepStart'', map_option JStr (dp_sleepStart dataPoint)),
                     (''sleepEnd'', map_option JStr (dp_sleepEnd dataPoint)),
                     (''inBedStart'', map_option JStr (dp_inBedStart dataPoint)),
                     (''inBedEnd'', map_option JStr (dp_inBedEnd dataPoint))]) d
          else if m_name m = ''heart_rate'' then
            saveHealthMetric num_text (m_name m) ''health_auto_export'' (dp_date dataPoint)
              (Some (num_or (dp_Avg dataPoint) 0)) (m_units m)
              (Some [(''source'', Some (JStr (str_or (dp_source dataPoint) ''iPhone''))),
                     (''min'', map_option JNum (dp_Min dataPoint)),
                     (''max'', map_option JNum (dp_Max dataPoint)),
                     (''avg'', map_option JNum (dp_Avg dataPoint))]) d
          else
            saveHealthMetric num_text (m_name m) ''health_auto_export'' (dp_date dataPoint)
              (dp_qty dataPoint) (m_units m)
              (Some [(''source'', Some (JStr (str_or (dp_source dataPoint) ''iPhone'')))]) d)"

text \<open>
  The loops return the error that stopped them (if any), the counter and the database as
  it is at that moment: rows written before a failure stay written.
\<close>

fun data_loop ::
  "(real \<Rightarrow> string) \<Rightarrow> metric \<Rightarrow> data_point option list \<Rightarrow> nat \<Rightarrow> db \<Rightarrow> error option \<times> nat \<times> db" where
  "data_loop num_text m [] stored d = (None, stored, d)"
| "data_loop num_text m (dpo # rest) stored d =
     (case save_data_point num_text m dpo d of
        Inl e \<Rightarrow> (Some e, stored, d)
      | Inr d' \<Rightarrow> data_loop num_text m rest (stored + 1) d')"

text \<open>
  The outer loop. On a \<open>null\<close> entry the test \<open>metric.data\<close> throws.
\<close>

fun metrics_loop ::
  "(real \<Rightarrow> string) \<Rightarrow> metric option list \<Rightarrow> nat \<Rightarrow> db \<Rightarrow> error option \<times> nat \<times> db" where
  "metrics_loop num_text [] stored d = (None, stored, d)"
| "metrics_loop num_text (None # ms) stored d = (Some TypeError, stored, d)"
| "metrics_loop num_text (Some m # ms) stored d =
     (case m_data m of
        None \<Rightarrow> metrics_loop num_text ms stored d
      | Some dps \<Rightarrow>
          (case data_loop num_text m dps stored d of
             (Some e, n, d') \<Rightarrow> (Some e, n, d')
           | (None, n, d') \<Rightarrow> metrics_loop num_text ms n d'))"

text \<open>
  \<open>if (payload.data?.metrics) { for (const metric of payload.data.metrics) \<dots> }\<close> with its
  counter, which starts at 0.
\<close>

definition process_metrics ::
  "(real \<Rightarrow> string) \<Rightarrow> metric option js_array \<Rightarrow> db \<Rightarrow> error option \<times> nat \<times> db" where
  "process_metrics num_text ms d =
     (case ms of
        Absent \<Rightarrow> (None, 0, d)
      | NotIterable \<Rightarrow> (Some TypeError, 0, d)
      | Items l \<Rightarrow> metrics_loop num_text l 0 d)"

definition save_workout :: "(real \<Rightarrow> string) \<Rightarrow> workout option \<Rightarrow> db \<Rightarrow> error + db" where
  "save_workout num_text wo d =
     (case wo of
        None \<Rightarrow> Inl TypeError
      | Some w \<Rightarrow>
          saveHealthMetric num_text (''workout_'' @ w_name w) ''health_auto_export'' (w_start w)
            (Some (num_or (w_duration w) 0)) ''seconds''
            (Some [(''end'', map_option JStr (w_end w)),
                   (''calories'', map_option JNum (w_calories w)),
                   (''distance'', map_option JNum (w_distance w)),
                   (''source'', Some (JStr (str_or (w_source w) ''iPhone'')))]) d)"

fun workouts_loop ::
  "(real \<Rightarrow> string) \<Rightarrow> workout option list \<Rightarrow> nat \<Rightarrow> db \<Rightarrow> error option \<times> nat \<times> db" where
  "workouts_loop num_text [] wstored d = (None, wstored, d)"
| "workouts_loop num_text (wo # rest) wstored d =
     (case save_workout num_text wo d of
        Inl e \<Rightarrow> (Some e, wstored, d)
      | Inr d' \<Rightarrow> workouts_loop num_text rest (wstored + 1) d')"

definition process_workouts ::
  "(real \<Rightarrow> string) \<Rightarrow> workout option js_array \<Rightarrow> db \<Rightarrow> error option \<times> nat \<times> db" where
  "process_workouts num_text ws d =
     (case ws of
        Absent \<Rightarrow> (None, 0, d)
      | NotIterable \<Rightarrow> (Some TypeError, 0, d)
      | Items l \<Rightarrow> workouts_loop num_text l 0 d)"

text \<open>
  The \<open>catch\<close> block of \<open>saveAutoExportData\<close>: a second import record with status
  \<open>error\<close>, a sync-log entry (whose own failure \<open>logSync\<close> swallows), and the error
  thrown again.
\<close>

definition error_path :: "error \<Rightarrow> db \<Rightarrow> (error + save_result) \<times> db" where
  "error_path e d =
     (let d1 = d\<lparr>apple_health_auto_export := apple_health_auto_export d @
                  [\<lparr>imp_source = ''health_auto_export'', metrics_count = 0, workouts_count = 0,
                    imp_status = ''error'', imp_error_message = Some e\<rparr>]\<rparr>;
          d2 = (case logSync ''health_auto_export'' ''error'' 0 (Some e) d1 of
                  Inl _ \<Rightarrow> d1 | Inr d' \<Rightarrow> d')
      in (Inl e, d2))"

text \<open>
  \<open>importId\<close> is the \<open>lastID\<close> of the insert; with AUTOINCREMENT and no deletion it is
  the number of rows of the table after the insert.
\<close>

definition saveAutoExportData ::
  "(real \<Rightarrow> string) \<Rightarrow> payload \<Rightarrow> db \<Rightarrow> (error + save_result) \<times> db" where
  "saveAutoExportData num_text p d =
     (if \<not> isReady d then (Inl NotInitialized, d)
      else
        let ms = (case data p of None \<Rightarrow> Absent | Some pd \<Rightarrow> metrics pd);
            ws = (case data p of None \<Rightarrow> Absent | Some pd \<Rightarrow> workouts pd);
            metricsCount = (case ms of Items l \<Rightarrow> length l | _ \<Rightarrow> 0);
            workoutsCount = (case ws of Items l \<Rightarrow> length l | _ \<Rightarrow> 0);
            d1 = d\<lparr>apple_health_auto_export := apple_health_auto_export d @
                  [\<lparr>imp_source = ''health_auto_export'', metrics_count = metricsCount,
                    workouts_count = workoutsCount, imp_status = ''success'',
                    imp_error_message = None\<rparr>]\<rparr>;
            importResult = length (apple_health_auto_export d1)
        in case process_metrics num_text ms d1 of
             (Some e, n, d2) \<Rightarrow> error_path e d2
           | (None, stored, d2) \<Rightarrow>
               (case process_workouts num_text ws d2 of
                  (Some e, n, d3) \<Rightarrow> error_path e d3
                | (None, wstored, d3) \<Rightarrow>
                    (Inr \<lparr>importId = importResult, metricsStored = stored,
                          workoutsStored = wstored\<rparr>,
                     (case logSync ''health_auto_export'' ''success''
                             (stored + wstored) None d3 of
                        Inl _ \<Rightarrow> d3 | Inr d' \<Rightarrow> d'))))"

section \<open>SQL operators used by the metrics query\<close>

text \<open>Text comparison under SQLite's default collation: bytewise, a proper prefix first.\<close>

fun str_le :: "string \<Rightarrow> string \<Rightarrow> bool" where
  "str_le [] ys = True"
| "str_le (x # xs) [] = False"
| "str_le (x # xs) (y # ys) = ((of_char x :: nat) < of_char y \<or> (x = y \<and> str_le xs ys))"

text \<open>\<open>NULL\<close> sorts before every text.\<close>

fun key_lt :: "string option \<Rightarrow> string option \<Rightarrow> bool" where
  "key_lt None None = False"
| "key_lt None (Some b) = True"
| "key_lt (Some a) None = False"
| "key_lt (Some a) (Some b) = (str_le a b \<and> a \<noteq> b)"

text \<open>
  \<open>x LIKE '%Watch%'\<close>: the pattern occurs somewhere in the text, ASCII letters compared
  without regard to case; on \<open>NULL\<close> the test is not true.
\<close>

definition ascii_lower :: "char \<Rightarrow> char" where
  "ascii_lower c =
     (if 65 \<le> (of_char c :: nat) \<and> (of_char c :: nat) \<le> 90 then char_of (of_char c + 32 :: nat)
      else c)"

fun prefix_ci :: "string \<Rightarrow> string \<Rightarrow> bool" where
  "prefix_ci [] s = True"
| "prefix_ci (p # ps) [] = False"
| "prefix_ci (p # ps) (c # cs) = (ascii_lower p = ascii_lower c \<and> prefix_ci ps cs)"

fun contains_ci :: "string \<Rightarrow> string \<Rightarrow> bool" where
  "contains_ci pat [] = prefix_ci pat []"
| "contains_ci pat (c # cs) = (prefix_ci pat (c # cs) \<or> contains_ci pat cs)"

definition like_Watch :: "string option \<Rightarrow> bool" where
  "like_Watch x = (case x of None \<Rightarrow> False | Some s \<Rightarrow> contains_ci ''Watch'' s)"

text \<open>Aggregates skip \<open>NULL\<close>s and are \<open>NULL\<close> when nothing is left.\<close>

definition non_null :: "'a option list \<Rightarrow> 'a list" where
  "non_null xs = map the (filter (\<lambda>x. x \<noteq> None) xs)"

definition sql_sum :: "real option list \<Rightarrow> real option" where
  "sql_sum xs = (if non_null xs = [] then None else Some (sum_list (non_null xs)))"

definition sql_avg :: "real option list \<Rightarrow> real option" where
  "sql_avg xs =
     (if non_null xs = [] then None
      else Some (sum_list (non_null xs) / real (length (non_null xs))))"

definition sql_min :: "real option list \<Rightarrow> real option" where
  "sql_min xs = (case non_null xs of [] \<Rightarrow> None | v # vs \<Rightarrow> Some (foldl min v vs))"

definition sql_max :: "real option list \<Rightarrow> real option" where
  "sql_max xs = (case non_null xs of [] \<Rightarrow> None | v # vs \<Rightarrow> Some (foldl max v vs))"

definition sql_min_text :: "string option list \<Rightarrow> string option" where
  "sql_min_text xs =
     (case non_null xs of [] \<Rightarrow> None
      | v # vs \<Rightarrow> Some (foldl (\<lambda>a b. if str_le a b then a else b) v vs))"

definition sql_max_text :: "string option list \<Rightarrow> string option" where
  "sql_max_text xs =
     (case non_null xs of [] \<Rightarrow> None
      | v # vs \<Rightarrow> Some (foldl (\<lambda>a b. if str_le a b then b else a) v vs))"

text \<open>
  \<open>GROUP BY\<close>: the rows with equal key form one group. Groups are listed by first
  occurrence; SQL itself fixes no order among groups.
\<close>

function group_rows :: "('a \<Rightarrow> 'k) \<Rightarrow> 'a list \<Rightarrow> ('k \<times> 'a list) list" where
  "group_rows key [] = []"
| "group_rows key (x # xs) =
     (key x, x # filter (\<lambda>y. key y = key x) xs)
       # group_rows key (filter (\<lambda>y. key y \<noteq> key x) xs)"
  by pat_completeness auto
termination
  by (relation "measure (\<lambda>(key, xs). length xs)") (auto simp: less_Suc_eq_le)

text \<open>
  \<open>ORDER BY k DESC\<close>, as a stable insertion sort: rows with equal key keep their order
  (SQL leaves the order of ties open).
\<close>

fun insert_desc :: "('a \<Rightarrow> string option) \<Rightarrow> 'a \<Rightarrow> 'a list \<Rightarrow> 'a list" where
  "insert_desc k x [] = [x]"
| "insert_desc k x (y # ys) =
     (if key_lt (k x) (k y) then y # insert_desc k x ys else x # y # ys)"

definition order_by_desc :: "('a \<Rightarrow> string option) \<Rightarrow> 'a list \<Rightarrow> 'a list" where
  "order_by_desc k xs = foldr (insert_desc k) xs []"

text \<open>\<open>LIMIT n\<close>; a negative bound means no bound.\<close>

definition sql_limit :: "int \<Rightarrow> 'a list \<Rightarrow> 'a list" where
  "sql_limit n xs = (if n < 0 then xs else take (nat n) xs)"

section \<open>The metrics query: getAppleHealthMetrics\<close>

text \<open>
  What the query takes from its host: the UTC date of today
  (\<open>new Date().toISOString().split('T')[0]\<close>), the UTC date of the moment \<open>days\<close> days
  ago, and SQLite's \<open>STRFTIME('%Y-W%W', \<dots>)\<close>, which is \<open>NULL\<close> on a text that is no
  date.
\<close>

record host =
  today :: string
  days_ago :: "int \<Rightarrow> string"
  strftime_week :: "string \<Rightarrow> string option"

definition metricMap :: "string \<Rightarrow> string option" where
  "metricMap = map_of
     [(''steps'', ''step_count''),
      (''heart-rate'', ''heart_rate''),
      (''active-energy'', ''active_energy''),
      (''walking-distance'', ''walking_running_distance''),
      (''body-weight'', ''weight_body_mass''),
      (''exercise-minutes'', ''apple_exercise_time''),
      (''flights-climbed'', ''flights_climbed''),
      (''resting-heart-rate'', ''resting_heart_rate''),
      (''hrv'', ''heart_rate_variability_sdnn''),
      (''sleep'', ''sleep_analysis'')]"

definition cumulativeMetrics :: "string list" where
  "cumulativeMetrics =
     [''step_count'', ''active_energy'', ''basal_energy_burned'', ''walking_running_distance'',
      ''apple_exercise_time'', ''flights_climbed'']"

definition isCumulative :: "string \<Rightarrow> bool" where
  "isCumulative internalType = List.member cumulativeMetrics internalType"

text \<open>\<open>aggregate || (isCumulative ? 'daily' : 'none')\<close>.\<close>

definition aggregationLevel :: "string option \<Rightarrow> string \<Rightarrow> string" where
  "aggregationLevel aggregate internalType =
     str_or aggregate (if isCumulative internalType then ''daily'' else ''none'')"

text \<open>The date range: the caller's two bounds when both are given, else from the clock.\<close>

definition date_range :: "host \<Rightarrow> int \<Rightarrow> string option \<Rightarrow> string option \<Rightarrow> string \<times> string" where
  "date_range h days start_date end_date =
     (if str_or start_date [] \<noteq> [] \<and> str_or end_date [] \<noteq> []
      then (the start_date, the end_date)
      else (days_ago h days, today h))"

definition deviceFilter :: "string \<Rightarrow> metric_row \<Rightarrow> bool" where
  "deviceFilter internalType r =
     (if internalType = ''step_count''
      then (metric_source r = ''health_auto_export''
            \<or> (metric_source r = ''health_export_complete'' \<and> like_Watch (additional_data r)))
      else True)"

text \<open>
  The WHERE clause shared by all six statements:
  \<open>metric_type = ? AND metric_date >= ? AND metric_date <= ?\<close> and the device filter.
\<close>

definition where_clause :: "string \<Rightarrow> string \<Rightarrow> string \<Rightarrow> metric_row \<Rightarrow> bool" where
  "where_clause internalType startDateStr endDateStr r =
     (metric_type r = internalType
      \<and> (case metric_date r of None \<Rightarrow> False
          | Some dt \<Rightarrow> str_le startDateStr dt \<and> str_le dt endDateStr)
      \<and> deviceFilter internalType r)"

text \<open>
  A row of an aggregating statement. \<open>min_value\<close> and \<open>max_value\<close> are selected by the
  daily statement only; in the others the column does not exist (\<open>None\<close>).
\<close>

record agg_row =
  period :: "string option"
  total_value :: "real option"
  total_value_converted :: "real option"
  avg_value :: "real option"
  min_value :: "real option option"
  max_value :: "real option option"
  sample_count :: nat
  first_sample :: "string option"
  last_sample :: "string option"
  unit_col :: string

text \<open>The expression of the \<open>period\<close> column at each aggregation level.\<close>

definition period_key :: "host \<Rightarrow> string \<Rightarrow> metric_row \<Rightarrow> string option" where
  "period_key h level r =
     (if level = ''daily'' then map_option (take 10) (metric_date r)
      else if level = ''weekly'' then
        (case metric_date r of None \<Rightarrow> None | Some dt \<Rightarrow> strftime_week h (take 10 dt))
      else if level = ''monthly'' then map_option (take 7) (metric_date r)
      else if level = ''yearly'' then map_option (take 4) (metric_date r)
      else Some ''total'')"

definition aggregate_group :: "string \<Rightarrow> (string option \<times> string) \<times> metric_row list \<Rightarrow> agg_row" where
  "aggregate_group level g =
     \<lparr>period = fst (fst g),
      total_value = sql_sum (map metric_value (snd g)),
      total_value_converted = sql_sum (map metric_value_converted (snd g)),
      avg_value = sql_avg (map metric_value (snd g)),
      min_value = (if level = ''daily'' then Some (sql_min (map metric_value (snd g))) else None),
      max_value = (if level = ''daily'' then Some (sql_max (map metric_value (snd g))) else None),
      sample_count = length (snd g),
      first_sample = sql_min_text (map metric_date (snd g)),
      last_sample = sql_max_text (map metric_date (snd g)),
      unit_col = snd (fst g)\<rparr>"

text \<open>
  The five aggregating statements: filter, group by period and unit, aggregate, and
  (except for \<open>total\<close>) order by period descending and cut at the limit.
\<close>

definition aggregate_query ::
  "host \<Rightarrow> string \<Rightarrow> string \<Rightarrow> string \<Rightarrow> string \<Rightarrow> int \<Rightarrow> metric_row list \<Rightarrow> agg_row list" where
  "aggregate_query h level internalType startDateStr endDateStr limit tbl =
     (let groups = map (aggregate_group level)
                     (group_rows (\<lambda>r. (period_key h level r, metric_unit r))
                        (filter (where_clause internalType startDateStr endDateStr) tbl))
      in if level = ''total'' then groups else sql_limit limit (order_by_desc period groups))"

text \<open>The statement of level \<open>none\<close>: the samples themselves, newest first.\<close>

definition samples_query ::
  "string \<Rightarrow> string \<Rightarrow> string \<Rightarrow> int \<Rightarrow> metric_row list \<Rightarrow> metric_row list" where
  "samples_query internalType startDateStr endDateStr limit tbl =
     sql_limit limit (order_by_desc metric_date
       (filter (where_clause internalType startDateStr endDateStr) tbl))"

text \<open>\<open>Math.round(x * 100) / 100\<close>; \<open>Math.round\<close> rounds halves up.\<close>

definition round2 :: "real \<Rightarrow> real" where
  "round2 x = of_int \<lfloor>x * 100 + 1 / 2\<rfloor> / 100"

text \<open>A JavaScript value is truthy as a number when it is neither missing nor zero.\<close>

definition truthy :: "real option \<Rightarrow> bool" where
  "truthy x = (case x of None \<Rightarrow> False | Some v \<Rightarrow> v \<noteq> 0)"

text \<open>\<open>null\<close> in arithmetic counts as 0.\<close>

definition null0 :: "real option \<Rightarrow> real" where
  "null0 x = (case x of None \<Rightarrow> 0 | Some v \<Rightarrow> v)"

text \<open>Rounding a column that may not exist: \<open>undefined\<close> gives \<open>NaN\<close> (\<open>None\<close>).\<close>

definition round2_col :: "real option option \<Rightarrow> real option" where
  "round2_col x = (case x of None \<Rightarrow> None | Some v \<Rightarrow> Some (round2 (null0 v)))"

record sample_out =
  recorded_date :: "string option"
  s_value :: "real option"
  s_unit :: string
  device :: string

text \<open>
  The optional field \<open>additional\<close> of a sample (the parsed metadata) is left out.
\<close>

definition sample_of :: "string \<Rightarrow> metric_row \<Rightarrow> sample_out" where
  "sample_of internalType row =
     \<lparr>recorded_date = metric_date row,
      s_value = (if (internalType = ''active_energy'' \<or> internalType = ''basal_energy_burned'')
                    \<and> truthy (metric_value_converted row)
                 then metric_value_converted row else metric_value row),
      s_unit = (if internalType = ''active_energy'' \<or> internalType = ''basal_energy_burned''
                then ''kcal'' else metric_unit row),
      device = metric_source row\<rparr>"

record period_stats =
  p_avg :: real
  p_min :: "real option"
  p_max :: "real option"

record period_out =
  p_period :: "string option"
  p_value :: real
  p_unit :: string
  p_samples :: nat
  p_first_sample :: "string option"
  p_last_sample :: "string option"
  p_stats :: "period_stats option"

definition period_of :: "string \<Rightarrow> agg_row \<Rightarrow> period_out" where
  "period_of internalType row =
     (let useConverted = ((internalType = ''active_energy'' \<or> internalType = ''basal_energy_burned'')
                          \<and> truthy (total_value_converted row));
          v = (if useConverted then total_value_converted row
               else if isCumulative internalType then total_value row else avg_value row)
      in \<lparr>p_period = period row,
          p_value = round2 (null0 v),
          p_unit = (if internalType = ''active_energy'' \<or> internalType = ''basal_energy_burned''
                    then ''kcal'' else unit_col row),
          p_samples = sample_count row,
          p_first_sample = first_sample row,
          p_last_sample = last_sample row,
          p_stats = (if isCumulative internalType then None
                     else Some \<lparr>p_avg = round2 (null0 (avg_value row)),
                                p_min = round2_col (min_value row),
                                p_max = round2_col (max_value row)\<rparr>)\<rparr>)"

record summary_out =
  summary_total :: real
  average_per_period :: real
  periods :: nat
  range_start :: string
  range_end :: string

definition summary_of :: "string \<Rightarrow> string \<Rightarrow> period_out list \<Rightarrow> summary_out option" where
  "summary_of startDateStr endDateStr results =
     (if results = [] then None
      else let totalValue = foldl (\<lambda>acc r. acc + p_value r) 0 results
           in Some \<lparr>summary_total = round2 totalValue,
                    average_per_period = round2 (totalValue / real (length results)),
                    periods = length results,
                    range_start = startDateStr, range_end = endDateStr\<rparr>)"

datatype results = Samples "sample_out list" | Periods "period_out list"

record query_result =
  q_metric_type :: string
  aggregation :: string
  days_requested :: "int option"
  records_found :: "nat option"
  q_data :: results
  summary :: "summary_out option"

datatype query_error = UnknownMetricType | InvalidAggregationLevel

text \<open>
  The part of \<open>getAppleHealthMetrics\<close> after the name lookup, for a given internal type.
  The query runs on an open database: \<open>allQuery\<close> does not look at \<open>isReady\<close>.
\<close>

definition metrics_for ::
  "host \<Rightarrow> string \<Rightarrow> string \<Rightarrow> int \<Rightarrow> int \<Rightarrow> string option \<Rightarrow> string option \<Rightarrow> string option \<Rightarrow>
     metric_row list \<Rightarrow> query_error + query_result" where
  "metrics_for h type internalType days limit aggregate start_date end_date tbl =
     (let level = aggregationLevel aggregate internalType;
          (startDateStr, endDateStr) = date_range h days start_date end_date
      in if level = ''none'' then
           (let results = map (sample_of internalType)
                            (samples_query internalType startDateStr endDateStr limit tbl)
            in Inr \<lparr>q_metric_type = type, aggregation = level, days_requested = Some days,
                    records_found = Some (length results), q_data = Samples results,
                    summary = None\<rparr>)
         else if level = ''daily'' \<or> level = ''weekly'' \<or> level = ''monthly''
                 \<or> level = ''yearly'' \<or> level = ''total'' then
           (let results = map (period_of internalType)
                            (aggregate_query h level internalType startDateStr endDateStr limit tbl)
            in Inr \<lparr>q_metric_type = type, aggregation = level, days_requested = None,
                    records_found = None, q_data = Periods results,
                    summary = summary_of startDateStr endDateStr results\<rparr>)
         else Inl InvalidAggregationLevel)"

definition getAppleHealthMetrics ::
  "host \<Rightarrow> string \<Rightarrow> int \<Rightarrow> int \<Rightarrow> string option \<Rightarrow> string option \<Rightarrow> string option \<Rightarrow>
     db \<Rightarrow> query_error + query_result" where
  "getAppleHealthMetrics h type days limit aggregate start_date end_date d =
     (case metricMap type of
        None \<Rightarrow> Inl UnknownMetricType
      | Some internalType \<Rightarrow>
          metrics_for h type internalType days limit aggregate start_date end_date
            (health_metrics d))"

section \<open>Vocabulary for the statements\<close>

text \<open>
  The metrics and workouts values of a payload, the entries of such a value, the data
  points of a payload in processing order, and its workouts.
\<close>

definition metrics_of :: "payload \<Rightarrow> metric option js_array" where
  "metrics_of p = (case data p of None \<Rightarrow> Absent | Some pd \<Rightarrow> metrics pd)"

definition workouts_of :: "payload \<Rightarrow> workout option js_array" where
  "workouts_of p = (case data p of None \<Rightarrow> Absent | Some pd \<Rightarrow> workouts pd)"

definition entries :: "'a js_array \<Rightarrow> 'a list" where
  "entries a = (case a of Items l \<Rightarrow> l | _ \<Rightarrow> [])"

definition metric_points :: "metric option \<Rightarrow> data_point option list" where
  "metric_points mo =
     (case mo of None \<Rightarrow> []
      | Some m \<Rightarrow> (case m_data m of None \<Rightarrow> [] | Some dps \<Rightarrow> dps))"

definition submitted_points :: "payload \<Rightarrow> data_point option list" where
  "submitted_points p = concat (map metric_points (entries (metrics_of p)))"

definition payload_workouts :: "payload \<Rightarrow> workout option list" where
  "payload_workouts p = entries (workouts_of p)"

text \<open>
  A batch in which nothing makes the loops throw: the metrics and workouts values are
  arrays or absent, and no metric entry, data point or workout is \<open>null\<close>.
\<close>

definition all_objects :: "payload \<Rightarrow> bool" where
  "all_objects p =
     (metrics_of p \<noteq> NotIterable \<and> workouts_of p \<noteq> NotIterable
      \<and> list_all (\<lambda>x. x \<noteq> None) (entries (metrics_of p))
      \<and> list_all (\<lambda>x. x \<noteq> None) (submitted_points p)
      \<and> list_all (\<lambda>x. x \<noteq> None) (payload_workouts p))"

text \<open>A sequence of \<open>INSERT OR IGNORE\<close> statements, one per row, in order.\<close>

definition insert_all ::
  "(metric_row \<Rightarrow> metric_row \<Rightarrow> bool) \<Rightarrow> metric_row list \<Rightarrow> metric_row list \<Rightarrow> metric_row list" where
  "insert_all uq rs tbl = foldl (\<lambda>t r. insert_or_ignore uq r t) tbl rs"

text \<open>The idempotency tuple of a row together with its value.\<close>

definition key_and_value :: "metric_row \<Rightarrow> string \<times> string \<times> string option \<times> real option" where
  "key_and_value r = (metric_type r, metric_source r, metric_date r, metric_value r)"

text \<open>A data point with no field set, a host and a number printer for the examples.\<close>

definition empty_point :: data_point where
  "empty_point = \<lparr>dp_date = None, dp_qty = None, dp_source = None, dp_totalSleep = None,
     dp_deep = None, dp_core = None, dp_rem = None, dp_awake = None, dp_inBed = None,
     dp_sleepStart = None, dp_sleepEnd = None, dp_inBedStart = None, dp_inBedEnd = None,
     dp_Avg = None, dp_Min = None, dp_Max = None\<rparr>"

definition point :: "string \<Rightarrow> real \<Rightarrow> data_point option" where
  "point t q = Some (empty_point\<lparr>dp_date := Some t, dp_qty := Some q\<rparr>)"

definition batch :: "metric list \<Rightarrow> payload" where
  "batch ms = \<lparr>data = Some \<lparr>metrics = Items (map Some ms), workouts = Absent\<rparr>\<rparr>"

definition example_host :: host where
  "example_host = \<lparr>today = ''2025-10-12'', days_ago = (\<lambda>n. ''2025-09-12''),
     strftime_week = (\<lambda>s. None)\<rparr>"

definition example_num_text :: "real \<Rightarrow> string" where
  "example_num_text x = ''0''"

text \<open>Example batches.\<close>

definition steps_metric :: "data_point option list \<Rightarrow> metric" where
  "steps_metric dps = \<lparr>m_name = ''step_count'', m_units = ''count'', m_data = Some dps\<rparr>"

definition energy_metric :: "string \<Rightarrow> data_point option list \<Rightarrow> metric" where
  "energy_metric u dps = \<lparr>m_name = ''active_energy'', m_units = u, m_data = Some dps\<rparr>"

definition duplicate_batch :: payload where
  "duplicate_batch = batch [steps_metric
     [point ''2025-10-11 08:14:51 +0100'' 0.2, point ''2025-10-11 08:14:51 +0100'' 12.1]]"

definition first_batch :: payload where
  "first_batch = batch [steps_metric [point ''2025-10-11 08:14:51 +0100'' 0.2]]"

definition second_batch :: payload where
  "second_batch = batch [steps_metric [point ''2025-10-11 08:14:51 +0100'' 12.1]]"

definition bad_timestamp_batch :: payload where
  "bad_timestamp_batch = batch [steps_metric
     [Some (empty_point\<lparr>dp_qty := Some 5\<rparr>), point ''yesterday'' 6,
      point ''2025-10-11 08:14:51 +0100'' 7]]"

definition null_point_batch :: payload where
  "null_point_batch = batch [steps_metric [point ''2025-10-11 08:14:51 +0100'' 7, None]]"

definition null_metric_batch :: payload where
  "null_metric_batch = \<lparr>data = Some \<lparr>metrics =
     Items [Some (steps_metric [point ''2025-10-11 08:14:51 +0100'' 7]), None],
     workouts = Absent\<rparr>\<rparr>"

definition energy_batch :: payload where
  "energy_batch = batch
     [energy_metric ''kJ'' [point ''2025-10-11 08:14:00 +0100'' 100],
      energy_metric ''kcal'' [point ''2025-10-11 08:15:00 +0100'' 50]]"

text \<open>
  The constraint that the repository's incident analysis reports for the table of the
  production database: \<open>UNIQUE(metric_type, metric_source, metric_date, metric_value)\<close>.
  SQL counts \<open>NULL\<close>s as distinct, so a row with a \<open>NULL\<close> in one of these columns
  conflicts with no other.
\<close>

definition analysis_unique :: "metric_row \<Rightarrow> metric_row \<Rightarrow> bool" where
  "analysis_unique new old =
     (metric_type new = metric_type old \<and> metric_source new = metric_source old
      \<and> metric_date new \<noteq> None \<and> metric_date new = metric_date old
      \<and> metric_value new \<noteq> None \<and> metric_value new = metric_value old)"

text \<open>
  A stored row of today (UTC) whose timestamp goes on after the date, and the device
  rule of the step-count query as a predicate on rows.
\<close>

definition today_with_time :: "host \<Rightarrow> metric_row \<Rightarrow> bool" where
  "today_with_time h r =
     (case metric_date r of None \<Rightarrow> False
      | Some dt \<Rightarrow> take (length (today h)) dt = today h \<and> length (today h) < length dt)"

definition realtime_or_watch :: "metric_row \<Rightarrow> bool" where
  "realtime_or_watch r =
     (metric_source r = ''health_auto_export''
      \<or> (metric_source r = ''health_export_complete'' \<and> like_Watch (additional_data r)))"

text \<open>
  A row whose timestamp lies in the date range of a request, the number of entries of
  a result (samples or groups), and the number of samples a result accounts for: the
  samples themselves at level \<open>none\<close>, the sample counts of the groups otherwise.
\<close>

definition in_requested_range ::
  "host \<Rightarrow> int \<Rightarrow> string option \<Rightarrow> string option \<Rightarrow> metric_row \<Rightarrow> bool" where
  "in_requested_range h days start_date end_date r =
     (case metric_date r of None \<Rightarrow> False
      | Some dt \<Rightarrow> str_le (fst (date_range h days start_date end_date)) dt
                 \<and> str_le dt (snd (date_range h days start_date end_date)))"

definition result_entries :: "query_result \<Rightarrow> nat" where
  "result_entries q = (case q_data q of Samples ss \<Rightarrow> length ss | Periods ps \<Rightarrow> length ps)"

definition samples_reported :: "query_result \<Rightarrow> nat" where
  "samples_reported q =
     (case q_data q of Samples ss \<Rightarrow> length ss | Periods ps \<Rightarrow> sum_list (map p_samples ps))"

definition with_metrics :: "db \<Rightarrow> metric_row list \<Rightarrow> db" where
  "with_metrics d tbl = d\<lparr>health_metrics := tbl\<rparr>"

definition stored_row ::
  "string \<Rightarrow> string \<Rightarrow> string \<Rightarrow> real \<Rightarrow> string \<Rightarrow> string option \<Rightarrow> real option \<Rightarrow> metric_row" where
  "stored_row ty src dt v u ad cv =
     \<lparr>metric_type = ty, metric_source = src, metric_date = Some dt, metric_value = Some v,
      metric_unit = u, additional_data = ad, metric_value_converted = cv\<rparr>"

text \<open>Example tables.\<close>

definition phone_rows :: "metric_row list" where
  "phone_rows =
     [stored_row ''step_count'' ''health_export_complete'' ''2025-10-11 08:14:00 +0100'' 500
        ''count'' (Some (JSON_stringify example_num_text [(''source'', Some (JStr ''iPhone 14''))]))
        (Some 500)]"

definition watch_rows :: "metric_row list" where
  "watch_rows =
     [stored_row ''step_count'' ''health_export_complete'' ''2025-10-11 09:30:00 +0100'' 500
        ''count'' (Some (JSON_stringify example_num_text [(''source'', Some (JStr ''Apple Watch''))]))
        (Some 500)]"

definition realtime_rows :: "metric_row list" where
  "realtime_rows =
     [stored_row ''step_count'' ''health_auto_export'' ''2025-10-11 08:14:00 +0100'' 300
        ''count'' (Some (JSON_stringify example_num_text [(''source'', Some (JStr ''Apple Watch''))]))
        (Some 300)]"

definition two_day_rows :: "metric_row list" where
  "two_day_rows =
     [stored_row ''step_count'' ''health_auto_export'' ''2025-10-12 08:14:00 +0100'' 300
        ''count'' None (Some 300),
      stored_row ''step_count'' ''health_auto_export'' ''2025-10-11 08:14:00 +0100'' 200
        ''count'' None (Some 200)]"

definition unconverted_rows :: "metric_row list" where
  "unconverted_rows =
     [stored_row ''active_energy'' ''health_auto_export'' ''2025-10-11 08:14:00 +0100'' 100
        ''kJ'' None None,
      stored_row ''active_energy'' ''health_auto_export'' ''2025-10-11 08:15:00 +0100'' 60
        ''kJ'' None (Some 0)]"






section \<open>Facts about the ingest loops\<close>

lemma saveHealthMetric_frame:
  "saveHealthMetric nt ty src dt v u ad d = Inr d' \<Longrightarrow>
   isReady d' = isReady d \<and> metrics_unique d' = metrics_unique d
   \<and> apple_health_auto_export d' = apple_health_auto_export d
   \<and> health_sync_log d' = health_sync_log d"
  by (auto simp: saveHealthMetric_def split: if_splits)

lemma saveHealthMetric_ready:
  "isReady d \<Longrightarrow> saveHealthMetric nt ty src dt v u ad d =
     Inr (d\<lparr>health_metrics := insert_or_ignore (metrics_unique d)
            (metric_values nt ty src dt v u ad) (health_metrics d)\<rparr>)"
  by (simp add: saveHealthMetric_def)

lemma save_data_point_frame:
  "save_data_point nt m dpo d = Inr d' \<Longrightarrow>
   isReady d' = isReady d \<and> metrics_unique d' = metrics_unique d
   \<and> apple_health_auto_export d' = apple_health_auto_export d
   \<and> health_sync_log d' = health_sync_log d"
  unfolding save_data_point_def
  by (auto split: option.splits if_splits dest: saveHealthMetric_frame)

lemma save_workout_frame:
  "save_workout nt wo d = Inr d' \<Longrightarrow>
   isReady d' = isReady d \<and> metrics_unique d' = metrics_unique d
   \<and> apple_health_auto_export d' = apple_health_auto_export d
   \<and> health_sync_log d' = health_sync_log d"
  unfolding save_workout_def
  by (auto split: option.splits dest: saveHealthMetric_frame)

lemma data_loop_frame:
  "data_loop nt m dps n d = (e, n', d') \<Longrightarrow>
   isReady d' = isReady d \<and> metrics_unique d' = metrics_unique d
   \<and> apple_health_auto_export d' = apple_health_auto_export d
   \<and> health_sync_log d' = health_sync_log d"
proof (induction dps arbitrary: n d)
  case Nil
  then show ?case by simp
next
  case (Cons dpo rest)
  show ?case
  proof (cases "save_data_point nt m dpo d")
    case (Inl err)
    with Cons.prems show ?thesis by simp
  next
    case (Inr d1)
    with Cons.prems have "data_loop nt m rest (n + 1) d1 = (e, n', d')" by simp
    from Cons.IH[OF this] save_data_point_frame[OF Inr] show ?thesis by simp
  qed
qed

lemma data_loop_count:
  "data_loop nt m dps n d = (None, n', d') \<Longrightarrow> n' = n + length dps"
proof (induction dps arbitrary: n d)
  case Nil
  then show ?case by simp
next
  case (Cons dpo rest)
  show ?case
  proof (cases "save_data_point nt m dpo d")
    case (Inl err)
    with Cons.prems show ?thesis by simp
  next
    case (Inr d1)
    with Cons.prems have "data_loop nt m rest (n + 1) d1 = (None, n', d')" by simp
    from Cons.IH[OF this] show ?thesis by simp
  qed
qed

lemma workouts_loop_frame:
  "workouts_loop nt ws n d = (e, n', d') \<Longrightarrow>
   isReady d' = isReady d \<and> metrics_unique d' = metrics_unique d
   \<and> apple_health_auto_export d' = apple_health_auto_export d
   \<and> health_sync_log d' = health_sync_log d"
proof (induction ws arbitrary: n d)
  case Nil
  then show ?case by simp
next
  case (Cons wo rest)
  show ?case
  proof (cases "save_workout nt wo d")
    case (Inl err)
    with Cons.prems show ?thesis by simp
  next
    case (Inr d1)
    with Cons.prems have "workouts_loop nt rest (n + 1) d1 = (e, n', d')" by simp
    from Cons.IH[OF this] save_workout_frame[OF Inr] show ?thesis by simp
  qed
qed

lemma workouts_loop_count:
  "workouts_loop nt ws n d = (None, n', d') \<Longrightarrow> n' = n + length ws"
proof (induction ws arbitrary: n d)
  case Nil
  then show ?case by simp
next
  case (Cons wo rest)
  show ?case
  proof (cases "save_workout nt wo d")
    case (Inl err)
    with Cons.prems show ?thesis by simp
  next
    case (Inr d1)
    with Cons.prems have "workouts_loop nt rest (n + 1) d1 = (None, n', d')" by simp
    from Cons.IH[OF this] show ?thesis by simp
  qed
qed

lemma error_path_Inl: "fst (error_path e d) = Inl e"
  by (simp add: error_path_def Let_def)

lemma error_path_audit:
  "length (apple_health_auto_export (snd (error_path e d))) = Suc (length (apple_health_auto_export d))"
  by (simp add: error_path_def Let_def logSync_def)

lemma error_path_record:
  "apple_health_auto_export (snd (error_path e d)) =
     apple_health_auto_export d @
       [\<lparr>imp_source = ''health_auto_export'', metrics_count = 0, workouts_count = 0,
         imp_status = ''error'', imp_error_message = Some e\<rparr>]"
  by (simp add: error_path_def Let_def logSync_def)

lemma logSync_frame:
  "(case logSync svc st n msg d of Inl _ \<Rightarrow> d | Inr d' \<Rightarrow> d') = d2 \<Longrightarrow>
   health_metrics d2 = health_metrics d \<and> apple_health_auto_export d2 = apple_health_auto_export d"
  by (auto simp: logSync_def split: if_splits)

lemma insert_or_ignore_createTables:
  "insert_or_ignore createTables_unique r tbl = tbl @ [r]"
proof -
  have "createTables_unique r = (\<lambda>old. False)"
    by (rule ext) (simp add: createTables_unique_def)
  then show ?thesis
    by (simp add: insert_or_ignore_def list_ex_iff)
qed

lemma pair_of_fst: "fst x = a \<Longrightarrow> x = (a, snd x)"
  by auto

lemma initialize_simps:
  "isReady initialize" "metrics_unique initialize = createTables_unique"
  "health_metrics initialize = []" "apple_health_auto_export initialize = []"
  by (simp_all add: initialize_def)

lemma metrics_loop_frame:
  "metrics_loop nt ms n d = (e, n', d') \<Longrightarrow>
   isReady d' = isReady d \<and> metrics_unique d' = metrics_unique d
   \<and> apple_health_auto_export d' = apple_health_auto_export d
   \<and> health_sync_log d' = health_sync_log d"
proof (induction ms arbitrary: n d)
  case Nil
  then show ?case by simp
next
  case (Cons mo ms)
  show ?case
  proof (cases mo)
    case None
    with Cons.prems show ?thesis by simp
  next
    case (Some m)
    note mo = this
    show ?thesis
    proof (cases "m_data m")
      case None
      with Cons mo show ?thesis by simp
    next
      case (Some dps)
      obtain e1 n1 d1 where dl: "data_loop nt m dps n d = (e1, n1, d1)"
        by (cases "data_loop nt m dps n d") auto
      show ?thesis
      proof (cases e1)
        case None
        with Cons.prems mo Some dl have "metrics_loop nt ms n1 d1 = (e, n', d')" by simp
        from Cons.IH[OF this] data_loop_frame[OF dl] show ?thesis by simp
      next
        case (Some err)
        with Cons.prems mo \<open>m_data m = Some dps\<close> dl have "d' = d1" by simp
        with data_loop_frame[OF dl] show ?thesis by simp
      qed
    qed
  qed
qed

lemma metrics_loop_count:
  "metrics_loop nt ms n d = (None, n', d') \<Longrightarrow>
   n' = n + length (concat (map metric_points ms))"
proof (induction ms arbitrary: n d)
  case Nil
  then show ?case by simp
next
  case (Cons mo ms)
  show ?case
  proof (cases mo)
    case None
    with Cons.prems show ?thesis by simp
  next
    case (Some m)
    note mo = this
    show ?thesis
    proof (cases "m_data m")
      case None
      with Cons mo show ?thesis by (simp add: metric_points_def)
    next
      case (Some dps)
      obtain e1 n1 d1 where dl: "data_loop nt m dps n d = (e1, n1, d1)"
        by (cases "data_loop nt m dps n d") auto
      show ?thesis
      proof (cases e1)
        case None
        with Cons.prems mo Some dl have ml: "metrics_loop nt ms n1 d1 = (None, n', d')"
          by simp
        from dl None have "n1 = n + length dps" by (simp add: data_loop_count)
        with Cons.IH[OF ml] mo Some show ?thesis by (simp add: metric_points_def)
      next
        case (Some err)
        with Cons.prems mo \<open>m_data m = Some dps\<close> dl show ?thesis by simp
      qed
    qed
  qed
qed

lemma process_metrics_frame:
  "process_metrics nt ms d = (e, n', d') \<Longrightarrow>
   isReady d' = isReady d \<and> metrics_unique d' = metrics_unique d
   \<and> apple_health_auto_export d' = apple_health_auto_export d
   \<and> health_sync_log d' = health_sync_log d"
  by (cases ms) (auto simp: process_metrics_def dest: metrics_loop_frame)

lemma process_workouts_frame:
  "process_workouts nt ws d = (e, n', d') \<Longrightarrow>
   isReady d' = isReady d \<and> metrics_unique d' = metrics_unique d
   \<and> apple_health_auto_export d' = apple_health_auto_export d
   \<and> health_sync_log d' = health_sync_log d"
  by (cases ws) (auto simp: process_workouts_def dest: workouts_loop_frame)

lemma process_metrics_count:
  "process_metrics nt ms d = (None, n', d') \<Longrightarrow>
   n' = length (concat (map metric_points (entries ms)))"
  by (cases ms) (auto simp: process_metrics_def entries_def dest: metrics_loop_count)

lemma process_workouts_count:
  "process_workouts nt ws d = (None, n', d') \<Longrightarrow> n' = length (entries ws)"
  by (cases ws) (auto simp: process_workouts_def entries_def dest: workouts_loop_count)

lemma saveAutoExportData_ready:
  assumes "isReady d"
  shows "saveAutoExportData nt p d =
     (let d1 = d\<lparr>apple_health_auto_export := apple_health_auto_export d @
                  [\<lparr>imp_source = ''health_auto_export'',
                    metrics_count = length (entries (metrics_of p)),
                    workouts_count = length (entries (workouts_of p)),
                    imp_status = ''success'', imp_error_message = None\<rparr>]\<rparr>
      in case process_metrics nt (metrics_of p) d1 of
           (Some e, n, d2) \<Rightarrow> error_path e d2
         | (None, stored, d2) \<Rightarrow>
             (case process_workouts nt (workouts_of p) d2 of
                (Some e, n, d3) \<Rightarrow> error_path e d3
              | (None, wstored, d3) \<Rightarrow>
                  (Inr \<lparr>importId = Suc (length (apple_health_auto_export d)),
                        metricsStored = stored, workoutsStored = wstored\<rparr>,
                   (case logSync ''health_auto_export'' ''success'' (stored + wstored) None d3 of
                      Inl _ \<Rightarrow> d3 | Inr d' \<Rightarrow> d'))))"
proof -
  have m: "(case metrics_of p of Items l \<Rightarrow> length l | _ \<Rightarrow> 0) = length (entries (metrics_of p))"
    by (cases "metrics_of p") (simp_all add: entries_def)
  have w: "(case workouts_of p of Items l \<Rightarrow> length l | _ \<Rightarrow> 0) = length (entries (workouts_of p))"
    by (cases "workouts_of p") (simp_all add: entries_def)
  from assms show ?thesis
    unfolding saveAutoExportData_def metrics_of_def[symmetric] workouts_of_def[symmetric] Let_def
    by (simp add: m w cong: prod.case_cong option.case_cong)
qed

text \<open>What a successful call returns and leaves behind, in terms of the two loops.\<close>

lemma saveAutoExportData_cases:
  assumes rdy: "isReady d"
    and run: "saveAutoExportData nt p d = (r, d')"
  obtains (metrics_fail) err n d2 where
      "process_metrics nt (metrics_of p)
         (d\<lparr>apple_health_auto_export := apple_health_auto_export d @
            [\<lparr>imp_source = ''health_auto_export'',
              metrics_count = length (entries (metrics_of p)),
              workouts_count = length (entries (workouts_of p)),
              imp_status = ''success'', imp_error_message = None\<rparr>]\<rparr>) = (Some err, n, d2)"
      "error_path err d2 = (r, d')"
  | (workouts_fail) err stored n d2 d3 where
      "process_metrics nt (metrics_of p)
         (d\<lparr>apple_health_auto_export := apple_health_auto_export d @
            [\<lparr>imp_source = ''health_auto_export'',
              metrics_count = length (entries (metrics_of p)),
              workouts_count = length (entries (workouts_of p)),
              imp_status = ''success'', imp_error_message = None\<rparr>]\<rparr>) = (None, stored, d2)"
      "process_workouts nt (workouts_of p) d2 = (Some err, n, d3)"
      "error_path err d3 = (r, d')"
  | (success) stored wstored d2 d3 where
      "process_metrics nt (metrics_of p)
         (d\<lparr>apple_health_auto_export := apple_health_auto_export d @
            [\<lparr>imp_source = ''health_auto_export'',
              metrics_count = length (entries (metrics_of p)),
              workouts_count = length (entries (workouts_of p)),
              imp_status = ''success'', imp_error_message = None\<rparr>]\<rparr>) = (None, stored, d2)"
      "process_workouts nt (workouts_of p) d2 = (None, wstored, d3)"
      "r = Inr \<lparr>importId = Suc (length (apple_health_auto_export d)),
                 metricsStored = stored, workoutsStored = wstored\<rparr>"
      "d' = (case logSync ''health_auto_export'' ''success'' (stored + wstored) None d3 of
               Inl _ \<Rightarrow> d3 | Inr d4 \<Rightarrow> d4)"
proof -
  define d1 where "d1 = d\<lparr>apple_health_auto_export := apple_health_auto_export d @
            [\<lparr>imp_source = ''health_auto_export'',
              metrics_count = length (entries (metrics_of p)),
              workouts_count = length (entries (workouts_of p)),
              imp_status = ''success'', imp_error_message = None\<rparr>]\<rparr>"
  obtain e1 n1 d2 where ml: "process_metrics nt (metrics_of p) d1 = (e1, n1, d2)"
    by (cases "process_metrics nt (metrics_of p) d1") auto
  obtain e2 n2 d3 where wl: "process_workouts nt (workouts_of p) d2 = (e2, n2, d3)"
    by (cases "process_workouts nt (workouts_of p) d2") auto
  show thesis
  proof (cases e1)
    case (Some err)
    with run rdy ml have "error_path err d2 = (r, d')"
      by (simp add: saveAutoExportData_ready d1_def[symmetric])
    with ml Some show ?thesis
      unfolding d1_def by (intro metrics_fail) simp_all
  next
    case None
    note e1 = this
    show ?thesis
    proof (cases e2)
      case (Some err)
      with run rdy ml wl e1 have "error_path err d3 = (r, d')"
        by (simp add: saveAutoExportData_ready d1_def[symmetric])
      with ml wl e1 Some show ?thesis
        unfolding d1_def by (intro workouts_fail) simp_all
    next
      case None
      with run rdy ml wl e1
      have "r = Inr \<lparr>importId = Suc (length (apple_health_auto_export d)),
                 metricsStored = n1, workoutsStored = n2\<rparr>"
        and "d' = (case logSync ''health_auto_export'' ''success'' (n1 + n2) None d3 of
               Inl _ \<Rightarrow> d3 | Inr d4 \<Rightarrow> d4)"
        by (auto simp: saveAutoExportData_ready d1_def[symmetric])
      with ml wl e1 None show ?thesis
        unfolding d1_def by (intro success) simp_all
    qed
  qed
qed

lemma ingest_counts:
  assumes "saveAutoExportData nt p d = (Inr res, d')"
  shows "metricsStored res = length (submitted_points p)
         \<and> workoutsStored res = length (payload_workouts p)"
proof -
  have rdy: "isReady d"
    using assms by (auto simp: saveAutoExportData_def split: if_splits)
  from rdy assms show ?thesis
  proof (cases rule: saveAutoExportData_cases)
    case (metrics_fail err n d2)
    with error_path_Inl[of err d2] show ?thesis by simp
  next
    case (workouts_fail err stored n d2 d3)
    with error_path_Inl[of err d3] show ?thesis by simp
  next
    case (success stored wstored d2 d3)
    from process_metrics_count[OF success(1)] process_workouts_count[OF success(2)] success(3)
    show ?thesis by (simp add: submitted_points_def payload_workouts_def)
  qed
qed

text \<open>
  The rows that reach the insert statement. Nothing here depends on what the table's
  constraints let through.
\<close>

lemma insert_all_append:
  "insert_all uq (rs @ rs') tbl = insert_all uq rs' (insert_all uq rs tbl)"
  by (simp add: insert_all_def)

lemma insert_all_createTables: "insert_all createTables_unique rs tbl = tbl @ rs"
  unfolding insert_all_def
  by (induction rs arbitrary: tbl) (simp_all add: insert_or_ignore_createTables)

lemma saveHealthMetric_row:
  assumes "isReady d"
  shows "\<exists>r. saveHealthMetric nt ty src dt v u ad d
               = Inr (d\<lparr>health_metrics := insert_all (metrics_unique d) [r] (health_metrics d)\<rparr>)
             \<and> metric_date r = dt \<and> metric_type r = ty
             \<and> metric_source r = src \<and> metric_unit r = u"
  using assms
  by (intro exI[of _ "metric_values nt ty src dt v u ad"])
     (simp add: saveHealthMetric_ready insert_all_def metric_values_def)

lemma save_data_point_row:
  assumes "isReady d"
  shows "\<exists>r. save_data_point nt m (Some dp) d
               = Inr (d\<lparr>health_metrics := insert_all (metrics_unique d) [r] (health_metrics d)\<rparr>)
             \<and> metric_date r = dp_date dp \<and> metric_type r = m_name m
             \<and> metric_source r = ''health_auto_export'' \<and> metric_unit r = m_units m"
proof -
  note R = saveHealthMetric_row[OF assms]
  show ?thesis
    by (cases "m_name m = ''sleep_analysis''"; cases "m_name m = ''heart_rate''")
       (simp_all add: save_data_point_def R)
qed

lemma save_workout_row:
  assumes "isReady d"
  shows "\<exists>r. save_workout nt (Some w) d
               = Inr (d\<lparr>health_metrics := insert_all (metrics_unique d) [r] (health_metrics d)\<rparr>)
             \<and> metric_date r = w_start w \<and> metric_type r = ''workout_'' @ w_name w
             \<and> metric_source r = ''health_auto_export'' \<and> metric_unit r = ''seconds''"
  unfolding save_workout_def option.case
  by (rule saveHealthMetric_row[OF assms])

lemma data_loop_rows:
  assumes "isReady d" and "list_all (\<lambda>x. x \<noteq> None) dps"
  shows "\<exists>rs d'. data_loop nt m dps n d = (None, n + length dps, d')
           \<and> health_metrics d' = insert_all (metrics_unique d) rs (health_metrics d)
           \<and> map metric_date rs = map (\<lambda>x. dp_date (the x)) dps"
  using assms
proof (induction dps arbitrary: n d)
  case Nil
  have "insert_all (metrics_unique d) [] (health_metrics d) = health_metrics d"
    by (simp add: insert_all_def)
  then show ?case by (intro exI[of _ "[]"] exI[of _ d]) simp
next
  case (Cons dpo rest)
  from Cons.prems(2) obtain dp where dpo: "dpo = Some dp" by auto
  from save_data_point_row[OF Cons.prems(1), of nt m dp]
  obtain r where r: "save_data_point nt m (Some dp) d
        = Inr (d\<lparr>health_metrics := insert_all (metrics_unique d) [r] (health_metrics d)\<rparr>)"
    and rd: "metric_date r = dp_date dp" by blast
  define d1 where "d1 = d\<lparr>health_metrics := insert_all (metrics_unique d) [r] (health_metrics d)\<rparr>"
  from Cons.prems have "isReady d1" "list_all (\<lambda>x. x \<noteq> None) rest"
    by (simp_all add: d1_def)
  from Cons.IH[OF this, of "n + 1"]
  obtain rs d' where ih: "data_loop nt m rest (n + 1) d1 = (None, n + 1 + length rest, d')"
    "health_metrics d' = insert_all (metrics_unique d1) rs (health_metrics d1)"
    "map metric_date rs = map (\<lambda>x. dp_date (the x)) rest" by blast
  have "data_loop nt m (dpo # rest) n d = (None, n + length (dpo # rest), d')"
    using dpo r ih(1) by (simp add: d1_def)
  moreover have "health_metrics d' = insert_all (metrics_unique d) (r # rs) (health_metrics d)"
    using ih(2) insert_all_append[of "metrics_unique d" "[r]" rs "health_metrics d"]
    by (simp add: d1_def)
  moreover have "map metric_date (r # rs) = map (\<lambda>x. dp_date (the x)) (dpo # rest)"
    using ih(3) rd dpo by simp
  ultimately show ?case by blast
qed

lemma workouts_loop_rows:
  assumes "isReady d" and "list_all (\<lambda>x. x \<noteq> None) ws"
  shows "\<exists>rs d'. workouts_loop nt ws n d = (None, n + length ws, d')
           \<and> health_metrics d' = insert_all (metrics_unique d) rs (health_metrics d)
           \<and> map metric_date rs = map (\<lambda>x. w_start (the x)) ws"
  using assms
proof (induction ws arbitrary: n d)
  case Nil
  have "insert_all (metrics_unique d) [] (health_metrics d) = health_metrics d"
    by (simp add: insert_all_def)
  then show ?case by (intro exI[of _ "[]"] exI[of _ d]) simp
next
  case (Cons wo rest)
  from Cons.prems(2) obtain w where wo: "wo = Some w" by auto
  from save_workout_row[OF Cons.prems(1), of nt w]
  obtain r where r: "save_workout nt (Some w) d
        = Inr (d\<lparr>health_metrics := insert_all (metrics_unique d) [r] (health_metrics d)\<rparr>)"
    and rd: "metric_date r = w_start w" by blast
  define d1 where "d1 = d\<lparr>health_metrics := insert_all (metrics_unique d) [r] (health_metrics d)\<rparr>"
  from Cons.prems have "isReady d1" "list_all (\<lambda>x. x \<noteq> None) rest"
    by (simp_all add: d1_def)
  from Cons.IH[OF this, of "n + 1"]
  obtain rs d' where ih: "workouts_loop nt rest (n + 1) d1 = (None, n + 1 + length rest, d')"
    "health_metrics d' = insert_all (metrics_unique d1) rs (health_metrics d1)"
    "map metric_date rs = map (\<lambda>x. w_start (the x)) rest" by blast
  have "workouts_loop nt (wo # rest) n d = (None, n + length (wo # rest), d')"
    using wo r ih(1) by (simp add: d1_def)
  moreover have "health_metrics d' = insert_all (metrics_unique d) (r # rs) (health_metrics d)"
    using ih(2) insert_all_append[of "metrics_unique d" "[r]" rs "health_metrics d"]
    by (simp add: d1_def)
  moreover have "map metric_date (r # rs) = map (\<lambda>x. w_start (the x)) (wo # rest)"
    using ih(3) rd wo by simp
  ultimately show ?case by blast
qed

lemma metrics_loop_rows:
  assumes "isReady d" and "list_all (\<lambda>x. x \<noteq> None) ms"
    and "list_all (\<lambda>x. x \<noteq> None) (concat (map metric_points ms))"
  shows "\<exists>rs d'. metrics_loop nt ms n d = (None, n + length (concat (map metric_points ms)), d')
           \<and> health_metrics d' = insert_all (metrics_unique d) rs (health_metrics d)
           \<and> map metric_date rs = map (\<lambda>x. dp_date (the x)) (concat (map metric_points ms))"
  using assms
proof (induction ms arbitrary: n d)
  case Nil
  have "insert_all (metrics_unique d) [] (health_metrics d) = health_metrics d"
    by (simp add: insert_all_def)
  then show ?case by (intro exI[of _ "[]"] exI[of _ d]) simp
next
  case (Cons mo ms)
  from Cons.prems(2) obtain m where mo: "mo = Some m" and nn0: "list_all (\<lambda>x. x \<noteq> None) ms"
    by auto
  show ?case
  proof (cases "m_data m")
    case None
    with mo have mp: "metric_points mo = []" by (simp add: metric_points_def)
    from Cons.prems mp have "list_all (\<lambda>x. x \<noteq> None) (concat (map metric_points ms))" by simp
    from Cons.IH[OF Cons.prems(1) nn0 this, of n] None mo mp show ?thesis by simp
  next
    case (Some dps)
    with mo have mp: "metric_points mo = dps" by (simp add: metric_points_def)
    from Cons.prems(3) mp have nn: "list_all (\<lambda>x. x \<noteq> None) dps"
      and nn': "list_all (\<lambda>x. x \<noteq> None) (concat (map metric_points ms))" by simp_all
    from data_loop_rows[OF Cons.prems(1) nn, of nt m n]
    obtain rs1 d1 where dl: "data_loop nt m dps n d = (None, n + length dps, d1)"
      "health_metrics d1 = insert_all (metrics_unique d) rs1 (health_metrics d)"
      "map metric_date rs1 = map (\<lambda>x. dp_date (the x)) dps" by blast
    from data_loop_frame[OF dl(1)] Cons.prems
    have d1: "isReady d1" "metrics_unique d1 = metrics_unique d" by simp_all
    from Cons.IH[OF d1(1) nn0 nn', of "n + length dps"]
    obtain rs2 d' where ih: "metrics_loop nt ms (n + length dps) d1 =
        (None, n + length dps + length (concat (map metric_points ms)), d')"
      "health_metrics d' = insert_all (metrics_unique d1) rs2 (health_metrics d1)"
      "map metric_date rs2 = map (\<lambda>x. dp_date (the x)) (concat (map metric_points ms))" by blast
    have "metrics_loop nt (mo # ms) n d =
            (None, n + length (concat (map metric_points (mo # ms))), d')"
      using mo Some dl(1) ih(1) mp by (simp add: add.assoc)
    moreover have "health_metrics d' = insert_all (metrics_unique d) (rs1 @ rs2) (health_metrics d)"
      using dl(2) ih(2) d1(2) by (simp add: insert_all_append)
    moreover have "map metric_date (rs1 @ rs2) =
        map (\<lambda>x. dp_date (the x)) (concat (map metric_points (mo # ms)))"
      using dl(3) ih(3) mp by simp
    ultimately show ?thesis by blast
  qed
qed

lemma ingest_passes_all:
  assumes rdy: "isReady d" and ok: "all_objects p"
  shows "\<exists>res d' rs. saveAutoExportData nt p d = (Inr res, d')
           \<and> health_metrics d' = insert_all (metrics_unique d) rs (health_metrics d)
           \<and> map metric_date rs =
               map (\<lambda>x. dp_date (the x)) (submitted_points p)
                 @ map (\<lambda>x. w_start (the x)) (payload_workouts p)
           \<and> metricsStored res = length (submitted_points p)
           \<and> workoutsStored res = length (payload_workouts p)"
proof -
  define d1 where "d1 = d\<lparr>apple_health_auto_export := apple_health_auto_export d @
            [\<lparr>imp_source = ''health_auto_export'',
              metrics_count = length (entries (metrics_of p)),
              workouts_count = length (entries (workouts_of p)),
              imp_status = ''success'', imp_error_message = None\<rparr>]\<rparr>"
  have d1: "isReady d1" "metrics_unique d1 = metrics_unique d"
    "health_metrics d1 = health_metrics d"
    using rdy by (simp_all add: d1_def)
  from ok have shape: "metrics_of p \<noteq> NotIterable" "workouts_of p \<noteq> NotIterable"
    and nn: "list_all (\<lambda>x. x \<noteq> None) (entries (metrics_of p))"
      "list_all (\<lambda>x. x \<noteq> None) (concat (map metric_points (entries (metrics_of p))))"
      "list_all (\<lambda>x. x \<noteq> None) (entries (workouts_of p))"
    by (simp_all add: all_objects_def submitted_points_def payload_workouts_def)
  from metrics_loop_rows[OF d1(1) nn(1,2), of nt 0]
  obtain rs1 d2 where ml: "metrics_loop nt (entries (metrics_of p)) 0 d1 =
        (None, length (submitted_points p), d2)"
      "health_metrics d2 = insert_all (metrics_unique d1) rs1 (health_metrics d1)"
      "map metric_date rs1 = map (\<lambda>x. dp_date (the x)) (submitted_points p)"
    by (auto simp: submitted_points_def)
  have pm: "process_metrics nt (metrics_of p) d1 = (None, length (submitted_points p), d2)"
  proof (cases "metrics_of p")
    case Absent
    with ml(1) show ?thesis by (simp add: process_metrics_def entries_def)
  next
    case NotIterable
    with shape show ?thesis by simp
  next
    case (Items l)
    with ml(1) show ?thesis by (simp add: process_metrics_def entries_def)
  qed
  from metrics_loop_frame[OF ml(1)] d1
  have d2: "isReady d2" "metrics_unique d2 = metrics_unique d" by simp_all
  from workouts_loop_rows[OF d2(1) nn(3), of nt 0]
  obtain rs2 d3 where wl: "workouts_loop nt (entries (workouts_of p)) 0 d2 =
        (None, length (payload_workouts p), d3)"
      "health_metrics d3 = insert_all (metrics_unique d2) rs2 (health_metrics d2)"
      "map metric_date rs2 = map (\<lambda>x. w_start (the x)) (payload_workouts p)"
    by (auto simp: payload_workouts_def)
  have pw: "process_workouts nt (workouts_of p) d2 = (None, length (payload_workouts p), d3)"
  proof (cases "workouts_of p")
    case Absent
    with wl(1) show ?thesis by (simp add: process_workouts_def entries_def)
  next
    case NotIterable
    with shape show ?thesis by simp
  next
    case (Items l)
    with wl(1) show ?thesis by (simp add: process_workouts_def entries_def)
  qed
  define d' where "d' = (case logSync ''health_auto_export'' ''success''
      (length (submitted_points p) + length (payload_workouts p)) None d3 of
        Inl _ \<Rightarrow> d3 | Inr d4 \<Rightarrow> d4)"
  have hm: "health_metrics d' = insert_all (metrics_unique d) (rs1 @ rs2) (health_metrics d)"
    using logSync_frame[OF d'_def[symmetric]] wl(2) ml(2) d1(2,3) d2(2)
    by (simp add: insert_all_append)
  have "saveAutoExportData nt p d =
      (Inr \<lparr>importId = Suc (length (apple_health_auto_export d)),
            metricsStored = length (submitted_points p),
            workoutsStored = length (payload_workouts p)\<rparr>, d')"
    using rdy pm pw
    by (simp add: saveAutoExportData_ready d1_def[symmetric] d'_def)
  moreover have "map metric_date (rs1 @ rs2) =
               map (\<lambda>x. dp_date (the x)) (submitted_points p)
                 @ map (\<lambda>x. w_start (the x)) (payload_workouts p)"
    using ml(3) wl(3) by simp
  ultimately show ?thesis using hm
    by (intro exI[of _ "\<lparr>importId = Suc (length (apple_health_auto_export d)),
            metricsStored = length (submitted_points p),
            workoutsStored = length (payload_workouts p)\<rparr>"] exI[of _ d']
          exI[of _ "rs1 @ rs2"]) simp
qed

section \<open>Facts about the query\<close>

lemma str_le_longer: "rest \<noteq> [] \<Longrightarrow> \<not> str_le (t @ rest) t"
proof (induction t)
  case Nil
  then show ?case by (cases rest) simp_all
next
  case (Cons c t)
  then show ?case by simp
qed

lemma filter_where_absorb:
  assumes "\<And>r. Q r \<Longrightarrow> P r"
  shows "filter Q (filter P tbl) = filter Q tbl"
proof -
  have "filter Q (filter P tbl) = filter (\<lambda>r. P r \<and> Q r) tbl" by simp
  also have "\<dots> = filter Q tbl"
    using assms by (intro filter_cong) auto
  finally show ?thesis .
qed

lemma metrics_for_filter:
  assumes "\<And>r. where_clause internalType (fst (date_range h days sd ed))
              (snd (date_range h days sd ed)) r \<Longrightarrow> P r"
  shows "metrics_for h type internalType days limit agg sd ed (filter P tbl)
         = metrics_for h type internalType days limit agg sd ed tbl"
proof -
  obtain s e where se: "date_range h days sd ed = (s, e)"
    by (cases "date_range h days sd ed") auto
  with assms have "\<And>r. where_clause internalType s e r \<Longrightarrow> P r" by simp
  then have f: "filter (where_clause internalType s e) (filter P tbl)
        = filter (where_clause internalType s e) tbl"
    by (rule filter_where_absorb)
  have a: "aggregate_query h level internalType s e limit (filter P tbl)
         = aggregate_query h level internalType s e limit tbl" for level
    by (simp only: aggregate_query_def f)
  have b: "samples_query internalType s e limit (filter P tbl)
         = samples_query internalType s e limit tbl"
    by (simp only: samples_query_def f)
  show ?thesis
    by (simp add: metrics_for_def se a b Let_def cong: if_cong)
qed

lemma with_metrics_simps:
  "health_metrics (with_metrics d tbl) = tbl"
  "with_metrics (with_metrics d tbl) tbl' = with_metrics d tbl'"
  by (simp_all add: with_metrics_def)

lemma round2_examples:
  "round2 (100 / 4.184) = 23.9" "round2 50 = 50" "round2 (23.9 + 50) = 73.9"
  "round2 ((23.9 + 50) / 2) = 36.95"
  by code_simp+

lemma ingest_two_units:
  "health_metrics (snd (saveAutoExportData nt
      (batch [energy_metric ''kJ'' [point ts1 a], energy_metric ''kcal'' [point ts2 b]])
      initialize))
   = [stored_row ''active_energy'' ''health_auto_export'' ts1 a ''kJ''
        (Some (JSON_stringify nt [(''source'', Some (JStr ''iPhone''))])) (Some (a / 4.184)),
      stored_row ''active_energy'' ''health_auto_export'' ts2 b ''kcal''
        (Some (JSON_stringify nt [(''source'', Some (JStr ''iPhone''))])) (Some b)]"
  by (simp add: saveAutoExportData_def batch_def energy_metric_def point_def empty_point_def
        initialize_def Let_def save_data_point_def saveHealthMetric_def insert_or_ignore_def
        createTables_unique_def metric_values_def convertedValue_def stored_row_def str_or_def
        logSync_def process_metrics_def process_workouts_def)

lemma take_all_limit: "limit < 0 \<or> int (length xs) \<le> limit \<Longrightarrow> sql_limit limit xs = xs"
  by (auto simp: sql_limit_def)

lemma sql_single:
  "sql_sum [Some v] = Some v" "sql_min_text [Some t] = Some t" "sql_max_text [Some t] = Some t"
  by (simp_all add: sql_sum_def sql_min_text_def sql_max_text_def non_null_def)




lemma sum_list_partition:
  "sum_list (map w (filter P xs)) + sum_list (map w (filter (\<lambda>x. \<not> P x) xs))
     = sum_list (map w xs)"
  for w :: "'a \<Rightarrow> 'b::comm_monoid_add"
  by (induction xs) (simp_all add: ac_simps)

lemma group_rows_sum:
  "sum_list (map (\<lambda>g. sum_list (map w (snd g))) (group_rows key xs)) = sum_list (map w xs)"
  for w :: "'a \<Rightarrow> 'b::comm_monoid_add"
proof (induction key xs rule: group_rows.induct)
  case (1 key)
  then show ?case by simp
next
  case (2 key x xs)
  have "sum_list (map w (filter (\<lambda>y. key y = key x) xs))
        + sum_list (map w (filter (\<lambda>y. key y \<noteq> key x) xs)) = sum_list (map w xs)"
    by (rule sum_list_partition)
  with "2.IH" show ?case by (simp add: ac_simps)
qed



lemma insert_desc_sum:
  "sum_list (map f (insert_desc k x ys)) = f x + sum_list (map f ys)"
  for f :: "'a \<Rightarrow> 'b::comm_monoid_add"
  by (induction ys) (simp_all add: ac_simps)

lemma order_by_desc_sum:
  "sum_list (map f (order_by_desc k xs)) = sum_list (map f xs)"
  for f :: "'a \<Rightarrow> 'b::comm_monoid_add"
proof -
  have "sum_list (map f (foldr (insert_desc k) xs acc))
        = sum_list (map f xs) + sum_list (map f acc)" for acc
    by (induction xs) (simp_all add: insert_desc_sum ac_simps)
  from this[of "[]"] show ?thesis by (simp add: order_by_desc_def)
qed

lemma insert_desc_length: "length (insert_desc k x ys) = Suc (length ys)"
  by (induction ys) simp_all

lemma order_by_desc_length: "length (order_by_desc k xs) = length xs"
proof -
  have "length (foldr (insert_desc k) xs acc) = length xs + length acc" for acc
    by (induction xs) (simp_all add: insert_desc_length)
  from this[of "[]"] show ?thesis by (simp add: order_by_desc_def)
qed

lemma sql_limit_untruncated:
  assumes "limit < 0 \<or> int (length (sql_limit limit xs)) < limit"
  shows "sql_limit limit xs = xs"
proof (cases "limit < 0")
  case True
  then show ?thesis by (simp add: sql_limit_def)
next
  case False
  with assms have "int (length (take (nat limit) xs)) < limit"
    by (simp add: sql_limit_def)
  then have "length xs < nat limit" by (simp add: min_def split: if_splits)
  with False show ?thesis by (simp add: sql_limit_def)
qed









lemma group_rows_count:
  "sum_list (map (\<lambda>g. length (snd g)) (group_rows key xs)) = length xs"
proof -
  have "sum_list (map (\<lambda>g. sum_list (map (\<lambda>x. 1::nat) (snd g))) (group_rows key xs))
        = sum_list (map (\<lambda>x. 1::nat) xs)"
    by (rule group_rows_sum)
  then show ?thesis by (simp add: sum_list_triv)
qed

lemma samples_reported_count:
  assumes run: "metrics_for h type it days limit aggregate sd ed tbl = Inr q"
    and nt: "aggregation q = ''total'' \<or> limit < 0 \<or> int (result_entries q) < limit"
  shows "samples_reported q
         = length (filter (where_clause it (fst (date_range h days sd ed))
                             (snd (date_range h days sd ed))) tbl)"
proof -
  obtain s e where se: "date_range h days sd ed = (s, e)"
    by (cases "date_range h days sd ed") auto
  define level where "level = aggregationLevel aggregate it"
  define rows where "rows = filter (where_clause it s e) tbl"
  show ?thesis
  proof (cases "level = ''none''")
    case True
    with run have q: "q_data q = Samples (map (sample_of it) (samples_query it s e limit tbl))"
      and a: "aggregation q = ''none''"
      by (auto simp: metrics_for_def se level_def[symmetric] Let_def)
    from nt a q have "limit < 0
        \<or> int (length (sql_limit limit (order_by_desc metric_date rows))) < limit"
      by (simp add: result_entries_def samples_query_def rows_def)
    from sql_limit_untruncated[OF this] q show ?thesis
      by (simp add: samples_reported_def samples_query_def rows_def[symmetric]
            order_by_desc_length se)
  next
    case False
    with run have lv: "level = ''daily'' \<or> level = ''weekly'' \<or> level = ''monthly''
                 \<or> level = ''yearly'' \<or> level = ''total''"
      by (auto simp: metrics_for_def se level_def[symmetric] Let_def split: if_splits)
    with run False
    have q: "q_data q = Periods (map (period_of it) (aggregate_query h level it s e limit tbl))"
      and a: "aggregation q = level"
      by (auto simp: metrics_for_def se level_def[symmetric] Let_def)
    define G where "G = group_rows (\<lambda>r. (period_key h level r, metric_unit r)) rows"
    define A where "A = map (aggregate_group level) G"
    define Q where "Q = aggregate_query h level it s e limit tbl"
    have Q: "Q = (if level = ''total'' then A else sql_limit limit (order_by_desc period A))"
      by (simp add: Q_def aggregate_query_def A_def G_def rows_def Let_def)
    have sumQ: "sum_list (map sample_count Q) = sum_list (map sample_count A)"
    proof (cases "level = ''total''")
      case True
      with Q show ?thesis by simp
    next
      case False
      with nt a q Q have "limit < 0
          \<or> int (length (sql_limit limit (order_by_desc period A))) < limit"
        by (simp add: result_entries_def Q_def[symmetric])
      from sql_limit_untruncated[OF this] False Q show ?thesis
        by (simp add: order_by_desc_sum)
    qed
    have "sum_list (map p_samples (map (period_of it) Q)) = sum_list (map sample_count Q)"
      by (simp add: comp_def period_of_def Let_def)
    also have "\<dots> = sum_list (map (\<lambda>g. length (snd g)) G)"
      by (simp add: sumQ A_def comp_def aggregate_group_def)
    also have "\<dots> = length rows"
      unfolding G_def by (rule group_rows_count)
    finally show ?thesis
      using q by (simp add: samples_reported_def Q_def rows_def se)
  qed
qed

lemma where_clause_steps:
  "where_clause ''step_count'' (fst (date_range h days sd ed)) (snd (date_range h days sd ed)) r
   \<longleftrightarrow> metric_type r = ''step_count'' \<and> in_requested_range h days sd ed r
        \<and> realtime_or_watch r"
  by (simp add: where_clause_def deviceFilter_def in_requested_range_def realtime_or_watch_def
        split: option.splits)

lemma where_clause_steps_fun:
  "where_clause ''step_count'' (fst (date_range h days sd ed)) (snd (date_range h days sd ed))
   = (\<lambda>r. metric_type r = ''step_count'' \<and> in_requested_range h days sd ed r
           \<and> realtime_or_watch r)"
  by (rule ext) (rule where_clause_steps)

section \<open>The claims\<close>

subsection \<open>C1: one row per (type, source, timestamp)\<close>

text \<open>
  C1 says that a second sample with the same (metric type, source, timestamp) is dropped,
  so that the store keeps one row per tuple, holding the first value. \<open>saveHealthMetric\<close>
  inserts with \<open>INSERT OR IGNORE\<close> and notes that duplicates are skipped on the UNIQUE
  constraint, but the table that \<open>createTables\<close> declares has no such constraint, so
  the statement never ignores a row. A batch delivered twice is stored twice; two step
  samples at the same timestamp with values 0.2 and 12.1, sent in one batch or in two,
  are both stored, and the daily total of that day is their sum 12.3 over 2 samples.
\<close>

theorem C1_duplicate_tuple_stored_twice:
  "map key_and_value
     (health_metrics (snd (saveAutoExportData example_num_text first_batch
        (snd (saveAutoExportData example_num_text first_batch initialize)))))
     = [(''step_count'', ''health_auto_export'', Some ''2025-10-11 08:14:51 +0100'', Some 0.2),
        (''step_count'', ''health_auto_export'', Some ''2025-10-11 08:14:51 +0100'', Some 0.2)]
   \<and> map key_and_value
     (health_metrics (snd (saveAutoExportData example_num_text duplicate_batch initialize)))
     = [(''step_count'', ''health_auto_export'', Some ''2025-10-11 08:14:51 +0100'', Some 0.2),
        (''step_count'', ''health_auto_export'', Some ''2025-10-11 08:14:51 +0100'', Some 12.1)]
   \<and> map key_and_value
     (health_metrics (snd (saveAutoExportData example_num_text second_batch
        (snd (saveAutoExportData example_num_text first_batch initialize)))))
     = [(''step_count'', ''health_auto_export'', Some ''2025-10-11 08:14:51 +0100'', Some 0.2),
        (''step_count'', ''health_auto_export'', Some ''2025-10-11 08:14:51 +0100'', Some 12.1)]
   \<and> getAppleHealthMetrics example_host ''steps'' 30 100 (Some ''daily'')
       (Some ''2025-10-11'') (Some ''2025-10-12'')
       (snd (saveAutoExportData example_num_text duplicate_batch initialize))
     = Inr \<lparr>q_metric_type = ''steps'', aggregation = ''daily'',
         days_requested = None, records_found = None,
         q_data = Periods [\<lparr>p_period = Some ''2025-10-11'', p_value = 12.3,
            p_unit = ''count'', p_samples = 2,
            p_first_sample = Some ''2025-10-11 08:14:51 +0100'',
            p_last_sample = Some ''2025-10-11 08:14:51 +0100'', p_stats = None\<rparr>],
         summary = Some \<lparr>summary_total = 12.3, average_per_period = 12.3, periods = 1,
            range_start = ''2025-10-11'', range_end = ''2025-10-12''\<rparr>\<rparr>"
  by code_simp

text \<open>
  The same two samples are also both stored when the table carries the constraint that
  the incident analysis reports, since that constraint includes the value.
\<close>

lemma duplicate_tuple_under_analysis_unique:
  "map key_and_value
     (health_metrics (snd (saveAutoExportData example_num_text duplicate_batch
        (initialize\<lparr>metrics_unique := analysis_unique\<rparr>))))
     = [(''step_count'', ''health_auto_export'', Some ''2025-10-11 08:14:51 +0100'', Some 0.2),
        (''step_count'', ''health_auto_export'', Some ''2025-10-11 08:14:51 +0100'', Some 12.1)]"
  by code_simp

subsection \<open>C2: the counts an ingest call returns\<close>

text \<open>
  C2 says that the returned counts leave out skipped duplicates, so that a batch sent a
  second time returns 0. Sending \<open>first_batch\<close> a second time returns
  \<open>metricsStored = 1\<close> again.
\<close>

theorem C2_resubmission_counterexample:
  "fst (saveAutoExportData example_num_text first_batch
          (snd (saveAutoExportData example_num_text first_batch initialize)))
     = Inr \<lparr>importId = 2, metricsStored = 1, workoutsStored = 0\<rparr>"
  by code_simp

text \<open>
  C2, amended. The counts returned by an ingest call that succeeds are the number of data
  points and the number of workouts of the batch: the counter goes up after every insert
  statement, whatever the statement did. So a batch sent again returns the counts it
  returned the first time.
\<close>

theorem C2_counts:
  assumes "saveAutoExportData nt p d = (Inr res, d')"
  shows "metricsStored res = length (submitted_points p)
         \<and> workoutsStored res = length (payload_workouts p)"
  using ingest_counts[OF assms] .

theorem C2_counts_witness:
  "fst (saveAutoExportData example_num_text first_batch initialize)
     = Inr \<lparr>importId = 1, metricsStored = 1, workoutsStored = 0\<rparr>
   \<and> fst (saveAutoExportData example_num_text first_batch
          (snd (saveAutoExportData example_num_text first_batch initialize)))
     = Inr \<lparr>importId = 2, metricsStored = 1, workoutsStored = 0\<rparr>
   \<and> length (submitted_points first_batch) = 1 \<and> length (payload_workouts first_batch) = 0"
proof -
  have h1: "fst (saveAutoExportData example_num_text first_batch initialize)
     = Inr \<lparr>importId = 1, metricsStored = 1, workoutsStored = 0\<rparr>"
    by code_simp
  have h2: "fst (saveAutoExportData example_num_text first_batch
          (snd (saveAutoExportData example_num_text first_batch initialize)))
     = Inr \<lparr>importId = 2, metricsStored = 1, workoutsStored = 0\<rparr>"
    by code_simp
  from C2_counts[OF pair_of_fst[OF h1]] C2_counts[OF pair_of_fst[OF h2]] h1 h2
  show ?thesis by simp
qed

text \<open>
  On a table with the constraint of the incident analysis the second submission stores
  nothing, and is counted all the same.
\<close>

lemma resubmission_counts_ignored_insert:
  "fst (saveAutoExportData example_num_text first_batch
          (snd (saveAutoExportData example_num_text first_batch
             (initialize\<lparr>metrics_unique := analysis_unique\<rparr>))))
     = Inr \<lparr>importId = 2, metricsStored = 1, workoutsStored = 0\<rparr>
   \<and> length (health_metrics (snd (saveAutoExportData example_num_text first_batch
          (snd (saveAutoExportData example_num_text first_batch
             (initialize\<lparr>metrics_unique := analysis_unique\<rparr>)))))) = 1"
  by code_simp

subsection \<open>C3: two energy samples in different units\<close>

text \<open>
  C3 says that after a batch with an \<open>active_energy\<close> sample of 100 kJ and one of 50
  kcal on the same day, the daily query returns one group with value 73.9 and sample
  count 2. Units belong to a metric entry of the payload, so the batch has two entries;
  every aggregating statement groups by period and stored unit, so the query returns two
  groups for that day, of one sample each.
\<close>

theorem C3_two_groups_counterexample:
  "getAppleHealthMetrics example_host ''active-energy'' 30 100 (Some ''daily'')
       (Some ''2025-10-11'') (Some ''2025-10-12'')
       (snd (saveAutoExportData example_num_text energy_batch initialize))
     = Inr \<lparr>q_metric_type = ''active-energy'', aggregation = ''daily'',
         days_requested = None, records_found = None,
         q_data = Periods
           [\<lparr>p_period = Some ''2025-10-11'', p_value = 23.9, p_unit = ''kcal'', p_samples = 1,
              p_first_sample = Some ''2025-10-11 08:14:00 +0100'',
              p_last_sample = Some ''2025-10-11 08:14:00 +0100'', p_stats = None\<rparr>,
            \<lparr>p_period = Some ''2025-10-11'', p_value = 50, p_unit = ''kcal'', p_samples = 1,
              p_first_sample = Some ''2025-10-11 08:15:00 +0100'',
              p_last_sample = Some ''2025-10-11 08:15:00 +0100'', p_stats = None\<rparr>],
         summary = Some \<lparr>summary_total = 73.9, average_per_period = 36.95, periods = 2,
            range_start = ''2025-10-11'', range_end = ''2025-10-12''\<rparr>\<rparr>"
  by code_simp

text \<open>
  C3, amended. After ingesting, into a fresh database, a batch with one \<open>active_energy\<close>
  sample of 100 kJ and one of 50 kcal whose timestamps lie on the same day, a daily query
  whose range contains both timestamps (and whose limit is at least 2) returns two groups
  for that day, one per stored unit, both labelled \<open>kcal\<close>: one with value 23.9 (100 /
  4.184 rounded) and one with value 50, each with sample count 1. The summary total over
  the two groups is 73.9.
\<close>

theorem C3_one_group_per_unit:
  assumes day: "length day = 10"
    and r1: "str_le sd (day @ t1)" "str_le (day @ t1) ed"
    and r2: "str_le sd (day @ t2)" "str_le (day @ t2) ed"
    and ne: "sd \<noteq> []" "ed \<noteq> []"
    and lim: "limit < 0 \<or> 2 \<le> limit"
  shows "\<exists>ps. getAppleHealthMetrics h ''active-energy'' days limit (Some ''daily'')
            (Some sd) (Some ed)
            (snd (saveAutoExportData nt
               (batch [energy_metric ''kJ'' [point (day @ t1) 100],
                       energy_metric ''kcal'' [point (day @ t2) 50]]) initialize))
          = Inr \<lparr>q_metric_type = ''active-energy'', aggregation = ''daily'',
              days_requested = None, records_found = None, q_data = Periods ps,
              summary = Some \<lparr>summary_total = 73.9, average_per_period = 36.95, periods = 2,
                 range_start = sd, range_end = ed\<rparr>\<rparr>
        \<and> length ps = 2
        \<and> set ps = {\<lparr>p_period = Some day, p_value = 23.9, p_unit = ''kcal'', p_samples = 1,
                       p_first_sample = Some (day @ t1), p_last_sample = Some (day @ t1),
                       p_stats = None\<rparr>,
                     \<lparr>p_period = Some day, p_value = 50, p_unit = ''kcal'', p_samples = 1,
                       p_first_sample = Some (day @ t2), p_last_sample = Some (day @ t2),
                       p_stats = None\<rparr>}"
proof -
  define r1 where "r1 = stored_row ''active_energy'' ''health_auto_export'' (day @ t1) 100 ''kJ''
      (Some (JSON_stringify nt [(''source'', Some (JStr ''iPhone''))])) (Some (100 / 4.184))"
  define r2 where "r2 = stored_row ''active_energy'' ''health_auto_export'' (day @ t2) 50 ''kcal''
      (Some (JSON_stringify nt [(''source'', Some (JStr ''iPhone''))])) (Some 50)"
  have rows: "health_metrics (snd (saveAutoExportData nt
               (batch [energy_metric ''kJ'' [point (day @ t1) 100],
                       energy_metric ''kcal'' [point (day @ t2) 50]]) initialize)) = [r1, r2]"
    unfolding r1_def r2_def by (rule ingest_two_units)
  have mm: "metricMap ''active-energy'' = Some ''active_energy''"
    by (simp add: metricMap_def)
  have lv: "aggregationLevel (Some ''daily'') ''active_energy'' = ''daily''"
    by (simp add: aggregationLevel_def str_or_def)
  have dr: "date_range h days (Some sd) (Some ed) = (sd, ed)"
    using ne by (simp add: date_range_def str_or_def)
  have w: "filter (where_clause ''active_energy'' sd ed) [r1, r2] = [r1, r2]"
    using r1 r2 by (simp add: where_clause_def deviceFilter_def stored_row_def r1_def r2_def)
  have k: "period_key h ''daily'' r1 = Some day" "period_key h ''daily'' r2 = Some day"
    using day by (simp_all add: period_key_def stored_row_def r1_def r2_def)
  have u: "metric_unit r1 = ''kJ''" "metric_unit r2 = ''kcal''"
    by (simp_all add: stored_row_def r1_def r2_def)
  have g: "group_rows (\<lambda>r. (period_key h ''daily'' r, metric_unit r)) [r1, r2]
        = [((Some day, ''kJ''), [r1]), ((Some day, ''kcal''), [r2])]"
    by (simp add: k u)
  define g1 where "g1 = aggregate_group ''daily'' ((Some day, ''kJ''), [r1])"
  define g2 where "g2 = aggregate_group ''daily'' ((Some day, ''kcal''), [r2])"
  have p: "period g1 = Some day" "period g2 = Some day"
    by (simp_all add: aggregate_group_def g1_def g2_def)
  have ob: "order_by_desc period [g1, g2] = [g1, g2]"
    by (simp add: order_by_desc_def p)
  have aq: "aggregate_query h ''daily'' ''active_energy'' sd ed limit [r1, r2] = [g1, g2]"
    unfolding aggregate_query_def w g Let_def
    using lim by (simp add: ob take_all_limit g1_def[symmetric] g2_def[symmetric])
  have c: "isCumulative ''active_energy''"
    by (simp add: isCumulative_def cumulativeMetrics_def)
  define o1 where "o1 = \<lparr>p_period = Some day, p_value = 23.9, p_unit = ''kcal'', p_samples = 1,
         p_first_sample = Some (day @ t1), p_last_sample = Some (day @ t1), p_stats = None\<rparr>"
  define o2 where "o2 = \<lparr>p_period = Some day, p_value = 50, p_unit = ''kcal'', p_samples = 1,
         p_first_sample = Some (day @ t2), p_last_sample = Some (day @ t2), p_stats = None\<rparr>"
  have o1: "period_of ''active_energy'' g1 = o1"
    using round2_examples(1)
    by (simp add: period_of_def aggregate_group_def stored_row_def c sql_single
          truthy_def null0_def Let_def g1_def r1_def o1_def)
  have o2: "period_of ''active_energy'' g2 = o2"
    using round2_examples(2)
    by (simp add: period_of_def aggregate_group_def stored_row_def c sql_single
          truthy_def null0_def Let_def g2_def r2_def o2_def)
  have sm: "summary_of sd ed [o1, o2]
      = Some \<lparr>summary_total = 73.9, average_per_period = 36.95, periods = 2,
                 range_start = sd, range_end = ed\<rparr>"
    using round2_examples(3,4) by (simp add: summary_of_def o1_def o2_def Let_def)
  have "getAppleHealthMetrics h ''active-energy'' days limit (Some ''daily'')
            (Some sd) (Some ed)
            (snd (saveAutoExportData nt
               (batch [energy_metric ''kJ'' [point (day @ t1) 100],
                       energy_metric ''kcal'' [point (day @ t2) 50]]) initialize))
     = Inr \<lparr>q_metric_type = ''active-energy'', aggregation = ''daily'',
              days_requested = None, records_found = None,
              q_data = Periods [o1, o2],
              summary = Some \<lparr>summary_total = 73.9, average_per_period = 36.95, periods = 2,
                 range_start = sd, range_end = ed\<rparr>\<rparr>"
    by (simp add: getAppleHealthMetrics_def mm metrics_for_def lv dr rows aq o1 o2 sm Let_def)
  then show ?thesis
    unfolding o1_def o2_def by simp
qed

theorem C3_one_group_per_unit_witness:
  "length ''2025-10-11'' = 10
   \<and> str_le ''2025-10-11'' ''2025-10-11 08:14:00 +0100''
   \<and> str_le ''2025-10-11 08:14:00 +0100'' ''2025-10-12''
   \<and> str_le ''2025-10-11'' ''2025-10-11 08:15:00 +0100''
   \<and> str_le ''2025-10-11 08:15:00 +0100'' ''2025-10-12''
   \<and> (\<exists>ps. getAppleHealthMetrics example_host ''active-energy'' 30 100 (Some ''daily'')
            (Some ''2025-10-11'') (Some ''2025-10-12'')
            (snd (saveAutoExportData example_num_text energy_batch initialize))
          = Inr \<lparr>q_metric_type = ''active-energy'', aggregation = ''daily'',
              days_requested = None, records_found = None, q_data = Periods ps,
              summary = Some \<lparr>summary_total = 73.9, average_per_period = 36.95, periods = 2,
                 range_start = ''2025-10-11'', range_end = ''2025-10-12''\<rparr>\<rparr>
        \<and> length ps = 2
        \<and> set ps = {\<lparr>p_period = Some ''2025-10-11'', p_value = 23.9, p_unit = ''kcal'',
                       p_samples = 1,
                       p_first_sample = Some ''2025-10-11 08:14:00 +0100'',
                       p_last_sample = Some ''2025-10-11 08:14:00 +0100'', p_stats = None\<rparr>,
                     \<lparr>p_period = Some ''2025-10-11'', p_value = 50, p_unit = ''kcal'',
                       p_samples = 1,
                       p_first_sample = Some ''2025-10-11 08:15:00 +0100'',
                       p_last_sample = Some ''2025-10-11 08:15:00 +0100'', p_stats = None\<rparr>})"
proof -
  have h1: "length ''2025-10-11'' = 10" by simp
  have h2: "str_le ''2025-10-11'' (''2025-10-11'' @ '' 08:14:00 +0100'')"
    and h3: "str_le (''2025-10-11'' @ '' 08:14:00 +0100'') ''2025-10-12''"
    and h4: "str_le ''2025-10-11'' (''2025-10-11'' @ '' 08:15:00 +0100'')"
    and h5: "str_le (''2025-10-11'' @ '' 08:15:00 +0100'') ''2025-10-12''"
    by simp_all
  have h6: "''2025-10-11'' \<noteq> []" and h7: "''2025-10-12'' \<noteq> []" by simp_all
  have h8: "(100::int) < 0 \<or> 2 \<le> (100::int)" by simp
  from C3_one_group_per_unit[OF h1 h2 h3 h4 h5 h6 h7 h8, of example_host 30 example_num_text]
       h2 h3 h4 h5
  show ?thesis by (simp add: energy_batch_def)
qed

subsection \<open>C4: unit normalisation in saveHealthMetric\<close>

text \<open>
  C4. Every row written by \<open>saveHealthMetric\<close> keeps the raw value and the unit as
  given; its converted value is the raw value divided by 4.184 for an energy kind in kJ,
  the raw value itself for an energy kind in kcal, and the raw value itself for every
  kind that is not an energy kind. (The table is the one \<open>createTables\<close> declares, so
  the row is in fact written.)
\<close>

theorem C4_unit_normalisation:
  assumes "saveHealthMetric num_text type source date v unit additionalData d = Inr d'"
    and "metrics_unique d = createTables_unique"
  shows "\<exists>r. health_metrics d' = health_metrics d @ [r]
           \<and> metric_value r = v \<and> metric_unit r = unit
           \<and> (is_energy type \<and> unit = ''kJ'' \<longrightarrow>
                 metric_value_converted r = map_option (\<lambda>x. x / 4.184) v)
           \<and> (is_energy type \<and> unit = ''kcal'' \<longrightarrow> metric_value_converted r = v)
           \<and> (\<not> is_energy type \<longrightarrow> metric_value_converted r = v)"
proof -
  from assms(1) have rdy: "isReady d"
    by (auto simp: saveHealthMetric_def split: if_splits)
  let ?r = "metric_values num_text type source date v unit additionalData"
  from assms rdy have "health_metrics d' = health_metrics d @ [?r]"
    by (auto simp: saveHealthMetric_ready insert_or_ignore_createTables)
  moreover have "metric_value ?r = v" and "metric_unit ?r = unit"
    by (simp_all add: metric_values_def)
  moreover have "is_energy type \<and> unit = ''kJ'' \<longrightarrow>
      metric_value_converted ?r = map_option (\<lambda>x. x / 4.184) v"
    by (simp add: metric_values_def convertedValue_def is_energy_def)
  moreover have "is_energy type \<and> unit = ''kcal'' \<longrightarrow> metric_value_converted ?r = v"
    by (simp add: metric_values_def convertedValue_def is_energy_def)
  moreover have "\<not> is_energy type \<longrightarrow> metric_value_converted ?r = v"
    by (simp add: metric_values_def convertedValue_def is_energy_def)
  ultimately show ?thesis by blast
qed

theorem C4_unit_normalisation_witness:
  "(\<exists>r. health_metrics (projr (saveHealthMetric example_num_text ''active_energy''
           ''health_auto_export'' (Some ''2025-10-11 08:14:00 +0100'') (Some 4.184) ''kJ'' None
           initialize)) = [r]
        \<and> metric_value r = Some 4.184 \<and> metric_unit r = ''kJ''
        \<and> metric_value_converted r = Some 1)
   \<and> (\<exists>r. health_metrics (projr (saveHealthMetric example_num_text ''basal_energy_burned''
           ''health_auto_export'' (Some ''2025-10-11 08:14:00 +0100'') (Some 50) ''kcal'' None
           initialize)) = [r]
        \<and> metric_value r = Some 50 \<and> metric_unit r = ''kcal''
        \<and> metric_value_converted r = Some 50)
   \<and> (\<exists>r. health_metrics (projr (saveHealthMetric example_num_text ''step_count''
           ''health_auto_export'' (Some ''2025-10-11 08:14:00 +0100'') (Some 12.1) ''kJ'' None
           initialize)) = [r]
        \<and> metric_value r = Some 12.1 \<and> metric_unit r = ''kJ''
        \<and> metric_value_converted r = Some 12.1)"
proof -
  have rdy: "isReady initialize" and uq: "metrics_unique initialize = createTables_unique"
    and emp: "health_metrics initialize = []"
    by (simp_all add: initialize_def)
  have run: "saveHealthMetric example_num_text ty src dt v u None initialize =
      Inr (projr (saveHealthMetric example_num_text ty src dt v u None initialize))"
    for ty src dt v u
    by (simp add: saveHealthMetric_ready rdy)
  show ?thesis
    using C4_unit_normalisation[OF run uq, of "''active_energy''" "''health_auto_export''"
            "Some ''2025-10-11 08:14:00 +0100''" "Some 4.184" "''kJ''"]
          C4_unit_normalisation[OF run uq, of "''basal_energy_burned''" "''health_auto_export''"
            "Some ''2025-10-11 08:14:00 +0100''" "Some 50" "''kcal''"]
          C4_unit_normalisation[OF run uq, of "''step_count''" "''health_auto_export''"
            "Some ''2025-10-11 08:14:00 +0100''" "Some 12.1" "''kJ''"]
    by (simp add: emp is_energy_def)
qed

subsection \<open>C5: daily summary total against the total-level query\<close>




subsection \<open>C6: data points with a bad timestamp\<close>

text \<open>
  C6 says that a data point whose timestamp is missing or malformed is rejected and
  counted as skipped. In \<open>bad_timestamp_batch\<close> the first point has no timestamp and the
  second has the text \<open>yesterday\<close>; all three points are stored and counted.
\<close>

theorem C6_bad_timestamp_counterexample:
  "fst (saveAutoExportData example_num_text bad_timestamp_batch initialize)
     = Inr \<lparr>importId = 1, metricsStored = 3, workoutsStored = 0\<rparr>
   \<and> map metric_date
       (health_metrics (snd (saveAutoExportData example_num_text bad_timestamp_batch initialize)))
     = [None, Some ''yesterday'', Some ''2025-10-11 08:14:51 +0100'']
   \<and> map metric_value
       (health_metrics (snd (saveAutoExportData example_num_text bad_timestamp_batch initialize)))
     = [Some 5, Some 6, Some 7]"
  by code_simp

text \<open>
  C6, amended. The timestamp of a data point is not examined. On a ready database, for a
  batch whose metrics and workouts values are arrays or absent and whose metric entries,
  data points and workouts are all objects, the call succeeds whatever the timestamps
  are: it hands one row per data point and per workout, in order, to \<open>INSERT OR IGNORE\<close>,
  each with the timestamp as given (\<open>NULL\<close> when missing), and it counts every data
  point. So a data point with a missing or malformed timestamp is neither rejected nor
  counted as skipped, and it does not keep the other samples of the batch from reaching
  the store.
\<close>

theorem C6_timestamps_not_checked:
  assumes "isReady d" and "all_objects p"
  shows "\<exists>res d' rs. saveAutoExportData nt p d = (Inr res, d')
           \<and> health_metrics d' = insert_all (metrics_unique d) rs (health_metrics d)
           \<and> map metric_date rs =
               map (\<lambda>x. dp_date (the x)) (submitted_points p)
                 @ map (\<lambda>x. w_start (the x)) (payload_workouts p)
           \<and> metricsStored res = length (submitted_points p)"
  using ingest_passes_all[OF assms, of nt] by blast

theorem C6_timestamps_not_checked_witness:
  "isReady initialize \<and> all_objects bad_timestamp_batch
   \<and> (\<exists>res d' rs. saveAutoExportData example_num_text bad_timestamp_batch initialize
                      = (Inr res, d')
         \<and> health_metrics d' = rs
         \<and> map metric_date rs = [None, Some ''yesterday'', Some ''2025-10-11 08:14:51 +0100'']
         \<and> metricsStored res = 3)"
proof -
  have ok: "all_objects bad_timestamp_batch"
    by code_simp
  have ev: "map (\<lambda>x. dp_date (the x)) (submitted_points bad_timestamp_batch)
              @ map (\<lambda>x. w_start (the x)) (payload_workouts bad_timestamp_batch)
            = [None, Some ''yesterday'', Some ''2025-10-11 08:14:51 +0100'']"
    by code_simp
  have len: "length (submitted_points bad_timestamp_batch) = 3"
    by code_simp
  from C6_timestamps_not_checked[OF initialize_simps(1) ok, of example_num_text]
  show ?thesis
    unfolding ev len using ok
    by (simp add: initialize_simps insert_all_createTables)
qed

text \<open>
  What makes a call fail is the shape of the batch, not a timestamp: a \<open>null\<close> among the
  metric entries stops the call at that entry, after the samples before it were stored.
\<close>

lemma null_metric_entry_stops_the_call:
  "\<not> all_objects null_metric_batch
   \<and> fst (saveAutoExportData example_num_text null_metric_batch initialize) = Inl TypeError
   \<and> map metric_value
       (health_metrics (snd (saveAutoExportData example_num_text null_metric_batch initialize)))
     = [Some 7]"
  by code_simp

subsection \<open>C7: import records per call\<close>

text \<open>
  C7 says that every ingest call creates exactly one import record, also when it fails
  partway. In \<open>null_point_batch\<close> the second element of the data array is \<open>null\<close>; the
  call fails on it after the record with status \<open>success\<close> was written, and the
  \<open>catch\<close> block writes a second record with status \<open>error\<close>. The first data point
  stays stored.
\<close>

theorem C7_failed_call_counterexample:
  "fst (saveAutoExportData example_num_text null_point_batch initialize) = Inl TypeError
   \<and> map imp_status
       (apple_health_auto_export (snd (saveAutoExportData example_num_text null_point_batch initialize)))
     = [''success'', ''error'']
   \<and> length (health_metrics (snd (saveAutoExportData example_num_text null_point_batch initialize)))
     = 1"
  by code_simp

text \<open>
  C7, amended. An ingest call that returns normally creates exactly one import record,
  whatever the number of samples in the batch. A call that fails after its record was
  written creates two, the second with status \<open>error\<close>. A call on a database that is
  not initialised creates none.
\<close>

theorem C7_audit_records:
  assumes "saveAutoExportData nt p d = (r, d')"
  shows "length (apple_health_auto_export d') =
           length (apple_health_auto_export d)
             + (if \<not> isReady d then 0 else case r of Inr res \<Rightarrow> 1 | Inl e \<Rightarrow> 2)
         \<and> map imp_status (drop (length (apple_health_auto_export d)) (apple_health_auto_export d'))
           = (if \<not> isReady d then []
              else case r of Inr res \<Rightarrow> [''success''] | Inl e \<Rightarrow> [''success'', ''error''])"
proof (cases "isReady d")
  case False
  with assms show ?thesis by (auto simp: saveAutoExportData_def)
next
  case rdy: True
  define first where "first = \<lparr>imp_source = ''health_auto_export'',
              metrics_count = length (entries (metrics_of p)),
              workouts_count = length (entries (workouts_of p)),
              imp_status = ''success'', imp_error_message = None\<rparr>"
  define d1 where "d1 = d\<lparr>apple_health_auto_export := apple_health_auto_export d @ [first]\<rparr>"
  have a1: "apple_health_auto_export d1 = apple_health_auto_export d @ [first]"
    by (simp add: d1_def)
  have "\<exists>recs. apple_health_auto_export d' = apple_health_auto_export d @ recs
          \<and> map imp_status recs
            = (case r of Inr res \<Rightarrow> [''success''] | Inl e \<Rightarrow> [''success'', ''error''])"
    using rdy assms
  proof (cases rule: saveAutoExportData_cases)
    case (metrics_fail err n d2)
    from process_metrics_frame[OF metrics_fail(1)] a1
    have "apple_health_auto_export d2 = apple_health_auto_export d @ [first]"
      by (simp add: d1_def first_def)
    with metrics_fail(2) error_path_record[of err d2] error_path_Inl[of err d2]
    show ?thesis by (auto simp: first_def)
  next
    case (workouts_fail err stored n d2 d3)
    from process_metrics_frame[OF workouts_fail(1)] process_workouts_frame[OF workouts_fail(2)] a1
    have "apple_health_auto_export d3 = apple_health_auto_export d @ [first]"
      by (simp add: d1_def first_def)
    with workouts_fail(3) error_path_record[of err d3] error_path_Inl[of err d3]
    show ?thesis by (auto simp: first_def)
  next
    case (success stored wstored d2 d3)
    from process_metrics_frame[OF success(1)] process_workouts_frame[OF success(2)] a1
    have "apple_health_auto_export d3 = apple_health_auto_export d @ [first]"
      by (simp add: d1_def first_def)
    with logSync_frame[OF success(4)[symmetric]] success(3)
    show ?thesis by (auto simp: first_def)
  qed
  then obtain recs where "apple_health_auto_export d' = apple_health_auto_export d @ recs"
    and st: "map imp_status recs
            = (case r of Inr res \<Rightarrow> [''success''] | Inl e \<Rightarrow> [''success'', ''error''])"
    by blast
  moreover from st have "length recs = (case r of Inr res \<Rightarrow> 1 | Inl e \<Rightarrow> 2)"
    by (cases r) (auto dest: arg_cong[where f = length])
  ultimately show ?thesis using rdy by simp
qed

theorem C7_audit_records_witness:
  "length (apple_health_auto_export (snd (saveAutoExportData example_num_text first_batch initialize))) = 1
   \<and> length (apple_health_auto_export (snd (saveAutoExportData example_num_text null_point_batch initialize))) = 2
   \<and> length (apple_health_auto_export
        (snd (saveAutoExportData example_num_text first_batch (initialize\<lparr>isReady := False\<rparr>)))) = 0
   \<and> map imp_status (apple_health_auto_export
        (snd (saveAutoExportData example_num_text null_metric_batch initialize)))
     = [''success'', ''error'']"
proof -
  have r1: "fst (saveAutoExportData example_num_text first_batch initialize)
     = Inr \<lparr>importId = 1, metricsStored = 1, workoutsStored = 0\<rparr>"
    by code_simp
  have r2: "fst (saveAutoExportData example_num_text null_point_batch initialize) = Inl TypeError"
    by code_simp
  have r3: "\<not> isReady (initialize\<lparr>isReady := False\<rparr>)"
    by simp
  have r4: "fst (saveAutoExportData example_num_text null_metric_batch initialize) = Inl TypeError"
    by code_simp
  from C7_audit_records[OF pair_of_fst[OF r1]]
       C7_audit_records[OF pair_of_fst[OF r2]]
       C7_audit_records[OF pair_of_fst[OF refl],
         of example_num_text first_batch "initialize\<lparr>isReady := False\<rparr>"]
       C7_audit_records[OF pair_of_fst[OF r4]]
  show ?thesis
    using r3 by (simp add: initialize_simps)
qed

subsection \<open>C8: the device filter of step-count queries\<close>

text \<open>
  C8. A step-count query, at every aggregation level, reads exactly the rows of type
  \<open>step_count\<close> in the requested range whose source is \<open>health_auto_export\<close>, or whose
  source is \<open>health_export_complete\<close> and whose metadata text matches \<open>%Watch%\<close>. Its
  result is the result on the table cut down to the rows of these sources; so when the
  table holds rows of \<open>health_export_complete\<close> without Watch metadata next to rows of
  \<open>health_auto_export\<close>, the result is the one the \<open>health_auto_export\<close> rows give alone.
  And every row of the set is in the result: unless the limit cut the result short, the
  number of samples it accounts for is the number of rows in the set.
\<close>

theorem C8_device_filter:
  "getAppleHealthMetrics h ''steps'' days limit aggregate start_date end_date d
     = getAppleHealthMetrics h ''steps'' days limit aggregate start_date end_date
         (with_metrics d (filter realtime_or_watch (health_metrics d)))
   \<and> (list_all (\<lambda>r. metric_source r = ''health_export_complete''
                      \<and> \<not> like_Watch (additional_data r)) generic
        \<and> list_all (\<lambda>r. metric_source r = ''health_auto_export'') realtime
      \<longrightarrow> getAppleHealthMetrics h ''steps'' days limit aggregate start_date end_date
            (with_metrics d (generic @ realtime))
          = getAppleHealthMetrics h ''steps'' days limit aggregate start_date end_date
            (with_metrics d realtime))
   \<and> (getAppleHealthMetrics h ''steps'' days limit aggregate start_date end_date d = Inr q
        \<and> (aggregation q = ''total'' \<or> limit < 0 \<or> int (result_entries q) < limit)
      \<longrightarrow> samples_reported q
          = length (filter (\<lambda>r. metric_type r = ''step_count''
                                 \<and> in_requested_range h days start_date end_date r
                                 \<and> realtime_or_watch r) (health_metrics d)))"
proof -
  have mm: "metricMap ''steps'' = Some ''step_count''"
    by (simp add: metricMap_def)
  have cut: "metrics_for h ''steps'' ''step_count'' days limit aggregate start_date end_date
          (filter realtime_or_watch tbl)
        = metrics_for h ''steps'' ''step_count'' days limit aggregate start_date end_date tbl"
    for tbl
    by (rule metrics_for_filter)
       (simp add: where_clause_def deviceFilter_def realtime_or_watch_def)
  have first: "getAppleHealthMetrics h ''steps'' days limit aggregate start_date end_date d'
     = getAppleHealthMetrics h ''steps'' days limit aggregate start_date end_date
         (with_metrics d' (filter realtime_or_watch (health_metrics d')))" for d'
    by (simp add: getAppleHealthMetrics_def mm with_metrics_def cut)
  have second: "getAppleHealthMetrics h ''steps'' days limit aggregate start_date end_date
            (with_metrics d (generic @ realtime))
          = getAppleHealthMetrics h ''steps'' days limit aggregate start_date end_date
            (with_metrics d realtime)"
    if g: "list_all (\<lambda>r. metric_source r = ''health_export_complete''
                      \<and> \<not> like_Watch (additional_data r)) generic"
      and r: "list_all (\<lambda>r. metric_source r = ''health_auto_export'') realtime"
  proof -
    from g have "filter realtime_or_watch generic = []"
      by (induction generic) (simp_all add: realtime_or_watch_def)
    moreover from r have "filter realtime_or_watch realtime = realtime"
      by (induction realtime) (simp_all add: realtime_or_watch_def)
    ultimately have "filter realtime_or_watch (generic @ realtime)
        = filter realtime_or_watch realtime" by simp
    with first[of "with_metrics d (generic @ realtime)"] first[of "with_metrics d realtime"]
    show ?thesis by (simp add: with_metrics_simps)
  qed
  have third: "samples_reported q
          = length (filter (\<lambda>r. metric_type r = ''step_count''
                                 \<and> in_requested_range h days start_date end_date r
                                 \<and> realtime_or_watch r) (health_metrics d))"
    if run: "getAppleHealthMetrics h ''steps'' days limit aggregate start_date end_date d = Inr q"
      and nt: "aggregation q = ''total'' \<or> limit < 0 \<or> int (result_entries q) < limit"
  proof -
    from run mm
    have "metrics_for h ''steps'' ''step_count'' days limit aggregate start_date end_date
            (health_metrics d) = Inr q"
      by (simp add: getAppleHealthMetrics_def)
    from samples_reported_count[OF this nt] show ?thesis
      by (simp only: where_clause_steps_fun)
  qed
  from first[of d] second third show ?thesis by blast
qed

theorem C8_device_filter_witness:
  "list_all (\<lambda>r. metric_source r = ''health_export_complete''
                      \<and> \<not> like_Watch (additional_data r)) phone_rows
   \<and> list_all (\<lambda>r. metric_source r = ''health_auto_export'') realtime_rows
   \<and> getAppleHealthMetrics example_host ''steps'' 30 100 (Some ''daily'')
        (Some ''2025-10-11'') (Some ''2025-10-12'')
        (with_metrics initialize (phone_rows @ realtime_rows))
      = Inr \<lparr>q_metric_type = ''steps'', aggregation = ''daily'',
         days_requested = None, records_found = None,
         q_data = Periods [\<lparr>p_period = Some ''2025-10-11'', p_value = 300,
            p_unit = ''count'', p_samples = 1,
            p_first_sample = Some ''2025-10-11 08:14:00 +0100'',
            p_last_sample = Some ''2025-10-11 08:14:00 +0100'', p_stats = None\<rparr>],
         summary = Some \<lparr>summary_total = 300, average_per_period = 300, periods = 1,
            range_start = ''2025-10-11'', range_end = ''2025-10-12''\<rparr>\<rparr>
   \<and> getAppleHealthMetrics example_host ''steps'' 30 100 (Some ''daily'')
        (Some ''2025-10-11'') (Some ''2025-10-12'')
        (with_metrics initialize (phone_rows @ watch_rows @ realtime_rows))
      = Inr \<lparr>q_metric_type = ''steps'', aggregation = ''daily'',
         days_requested = None, records_found = None,
         q_data = Periods [\<lparr>p_period = Some ''2025-10-11'', p_value = 800,
            p_unit = ''count'', p_samples = 2,
            p_first_sample = Some ''2025-10-11 08:14:00 +0100'',
            p_last_sample = Some ''2025-10-11 09:30:00 +0100'', p_stats = None\<rparr>],
         summary = Some \<lparr>summary_total = 800, average_per_period = 800, periods = 1,
            range_start = ''2025-10-11'', range_end = ''2025-10-12''\<rparr>\<rparr>
   \<and> filter (\<lambda>r. metric_type r = ''step_count''
                   \<and> in_requested_range example_host 30 (Some ''2025-10-11'')
                        (Some ''2025-10-12'') r
                   \<and> realtime_or_watch r) (phone_rows @ watch_rows @ realtime_rows)
      = watch_rows @ realtime_rows
   \<and> length (filter (\<lambda>r. metric_type r = ''step_count''
                   \<and> in_requested_range example_host 30 (Some ''2025-10-11'')
                        (Some ''2025-10-12'') r
                   \<and> realtime_or_watch r) (phone_rows @ watch_rows @ realtime_rows)) = 2"
proof -
  define q where "q = \<lparr>q_metric_type = ''steps'', aggregation = ''daily'',
         days_requested = None, records_found = None,
         q_data = Periods [\<lparr>p_period = Some ''2025-10-11'', p_value = 800,
            p_unit = ''count'', p_samples = 2,
            p_first_sample = Some ''2025-10-11 08:14:00 +0100'',
            p_last_sample = Some ''2025-10-11 09:30:00 +0100'', p_stats = None\<rparr>],
         summary = Some \<lparr>summary_total = 800, average_per_period = 800, periods = 1,
            range_start = ''2025-10-11'', range_end = ''2025-10-12''\<rparr>\<rparr>"
  have g: "list_all (\<lambda>r. metric_source r = ''health_export_complete''
                      \<and> \<not> like_Watch (additional_data r)) phone_rows"
    by code_simp
  have r: "list_all (\<lambda>r. metric_source r = ''health_auto_export'') realtime_rows"
    by code_simp
  have alone: "getAppleHealthMetrics example_host ''steps'' 30 100 (Some ''daily'')
        (Some ''2025-10-11'') (Some ''2025-10-12'') (with_metrics initialize realtime_rows)
      = Inr \<lparr>q_metric_type = ''steps'', aggregation = ''daily'',
         days_requested = None, records_found = None,
         q_data = Periods [\<lparr>p_period = Some ''2025-10-11'', p_value = 300,
            p_unit = ''count'', p_samples = 1,
            p_first_sample = Some ''2025-10-11 08:14:00 +0100'',
            p_last_sample = Some ''2025-10-11 08:14:00 +0100'', p_stats = None\<rparr>],
         summary = Some \<lparr>summary_total = 300, average_per_period = 300, periods = 1,
            range_start = ''2025-10-11'', range_end = ''2025-10-12''\<rparr>\<rparr>"
    by code_simp
  have mixed: "getAppleHealthMetrics example_host ''steps'' 30 100 (Some ''daily'')
        (Some ''2025-10-11'') (Some ''2025-10-12'')
        (with_metrics initialize (phone_rows @ watch_rows @ realtime_rows)) = Inr q"
    unfolding q_def by code_simp
  have nt: "aggregation q = ''total'' \<or> (100::int) < 0 \<or> int (result_entries q) < 100"
    by (simp add: q_def result_entries_def)
  have sel: "filter (\<lambda>r. metric_type r = ''step_count''
                   \<and> in_requested_range example_host 30 (Some ''2025-10-11'')
                        (Some ''2025-10-12'') r
                   \<and> realtime_or_watch r) (phone_rows @ watch_rows @ realtime_rows)
      = watch_rows @ realtime_rows"
    by code_simp
  have two: "samples_reported q = 2"
    by (simp add: q_def samples_reported_def)
  from C8_device_filter[of example_host 30 100 "Some ''daily''" "Some ''2025-10-11''"
         "Some ''2025-10-12''" initialize phone_rows realtime_rows]
    g r alone
  have part1: "getAppleHealthMetrics example_host ''steps'' 30 100 (Some ''daily'')
        (Some ''2025-10-11'') (Some ''2025-10-12'')
        (with_metrics initialize (phone_rows @ realtime_rows))
      = Inr \<lparr>q_metric_type = ''steps'', aggregation = ''daily'',
         days_requested = None, records_found = None,
         q_data = Periods [\<lparr>p_period = Some ''2025-10-11'', p_value = 300,
            p_unit = ''count'', p_samples = 1,
            p_first_sample = Some ''2025-10-11 08:14:00 +0100'',
            p_last_sample = Some ''2025-10-11 08:14:00 +0100'', p_stats = None\<rparr>],
         summary = Some \<lparr>summary_total = 300, average_per_period = 300, periods = 1,
            range_start = ''2025-10-11'', range_end = ''2025-10-12''\<rparr>\<rparr>"
    by simp
  have third: "getAppleHealthMetrics example_host ''steps'' 30 100 (Some ''daily'')
        (Some ''2025-10-11'') (Some ''2025-10-12'')
        (with_metrics initialize (phone_rows @ watch_rows @ realtime_rows)) = Inr q
        \<and> (aggregation q = ''total'' \<or> (100::int) < 0 \<or> int (result_entries q) < 100)
      \<longrightarrow> samples_reported q
          = length (filter (\<lambda>r. metric_type r = ''step_count''
                   \<and> in_requested_range example_host 30 (Some ''2025-10-11'')
                        (Some ''2025-10-12'') r
                   \<and> realtime_or_watch r)
              (health_metrics (with_metrics initialize
                 (phone_rows @ watch_rows @ realtime_rows))))"
    using C8_device_filter[of example_host 30 100 "Some ''daily''" "Some ''2025-10-11''"
         "Some ''2025-10-12''" "with_metrics initialize (phone_rows @ watch_rows @ realtime_rows)"
         "[]" "[]" q]
    by (rule conjunct2[OF conjunct2])
  from third mixed nt
  have "samples_reported q
          = length (filter (\<lambda>r. metric_type r = ''step_count''
                   \<and> in_requested_range example_host 30 (Some ''2025-10-11'')
                        (Some ''2025-10-12'') r
                   \<and> realtime_or_watch r)
              (health_metrics (with_metrics initialize
                 (phone_rows @ watch_rows @ realtime_rows))))"
    by blast
  hence cnt: "samples_reported q
          = length (filter (\<lambda>r. metric_type r = ''step_count''
                   \<and> in_requested_range example_host 30 (Some ''2025-10-11'')
                        (Some ''2025-10-12'') r
                   \<and> realtime_or_watch r) (phone_rows @ watch_rows @ realtime_rows))"
    by (simp only: with_metrics_simps)
  from cnt two
  have len2: "length (filter (\<lambda>r. metric_type r = ''step_count''
                   \<and> in_requested_range example_host 30 (Some ''2025-10-11'')
                        (Some ''2025-10-12'') r
                   \<and> realtime_or_watch r) (phone_rows @ watch_rows @ realtime_rows)) = 2"
    by simp
  from g r part1 mixed[unfolded q_def] sel len2 show ?thesis
    by (intro conjI)
qed

subsection \<open>C9: the fallback to the raw value for energy kinds\<close>

text \<open>
  C9. For the energy kinds \<open>active_energy\<close> and \<open>basal_energy_burned\<close>: a group whose
  summed converted value is \<open>NULL\<close> or 0 reports the (rounded) sum of the raw values, a
  sample whose converted value is \<open>NULL\<close> or 0 reports its raw value, and in both cases
  the unit reported is \<open>kcal\<close>.
\<close>

theorem C9_energy_fallback:
  assumes "is_energy internalType"
  shows "(sql_sum (map metric_value_converted rs) = None
            \<or> sql_sum (map metric_value_converted rs) = Some 0
          \<longrightarrow> p_value (period_of internalType (aggregate_group level (k, rs)))
                = round2 (null0 (sql_sum (map metric_value rs))))
         \<and> p_unit (period_of internalType (aggregate_group level (k, rs))) = ''kcal''
         \<and> (metric_value_converted row = None \<or> metric_value_converted row = Some 0
            \<longrightarrow> s_value (sample_of internalType row) = metric_value row)
         \<and> s_unit (sample_of internalType row) = ''kcal''"
proof -
  from assms have e: "internalType = ''active_energy'' \<or> internalType = ''basal_energy_burned''"
    by (simp add: is_energy_def)
  then have c: "isCumulative internalType"
    by (auto simp: isCumulative_def cumulativeMetrics_def)
  have "p_value (period_of internalType (aggregate_group level (k, rs)))
          = round2 (null0 (sql_sum (map metric_value rs)))"
    if "sql_sum (map metric_value_converted rs) = None
          \<or> sql_sum (map metric_value_converted rs) = Some 0"
    using that c by (auto simp: period_of_def aggregate_group_def truthy_def Let_def)
  moreover have "p_unit (period_of internalType (aggregate_group level (k, rs))) = ''kcal''"
    using e by (auto simp: period_of_def Let_def)
  moreover have "s_value (sample_of internalType row) = metric_value row"
    if "metric_value_converted row = None \<or> metric_value_converted row = Some 0"
    using that by (auto simp: sample_of_def truthy_def)
  moreover have "s_unit (sample_of internalType row) = ''kcal''"
    using e by (auto simp: sample_of_def)
  ultimately show ?thesis by blast
qed

theorem C9_energy_fallback_witness:
  "is_energy ''active_energy''
   \<and> sql_sum (map metric_value_converted unconverted_rows) = Some 0
   \<and> p_value (period_of ''active_energy''
        (aggregate_group ''daily'' ((Some ''2025-10-11'', ''kJ''), unconverted_rows))) = 160
   \<and> p_unit (period_of ''active_energy''
        (aggregate_group ''daily'' ((Some ''2025-10-11'', ''kJ''), unconverted_rows))) = ''kcal''
   \<and> metric_value_converted (hd unconverted_rows) = None
   \<and> s_value (sample_of ''active_energy'' (hd unconverted_rows)) = Some 100
   \<and> s_unit (sample_of ''active_energy'' (hd unconverted_rows)) = ''kcal''"
proof -
  have e: "is_energy ''active_energy''"
    by (simp add: is_energy_def)
  have s: "sql_sum (map metric_value_converted unconverted_rows) = Some 0"
    by code_simp
  have n: "metric_value_converted (hd unconverted_rows) = None"
    by code_simp
  have raw: "round2 (null0 (sql_sum (map metric_value unconverted_rows))) = 160"
    by code_simp
  have v: "metric_value (hd unconverted_rows) = Some 100"
    by code_simp
  from C9_energy_fallback[OF e, of unconverted_rows "''daily''" "(Some ''2025-10-11'', ''kJ'')"
         "hd unconverted_rows"] e s n raw v
  show ?thesis by simp
qed

text \<open>The same through the whole query, aggregated and raw.\<close>

lemma energy_fallback_example:
  "getAppleHealthMetrics example_host ''active-energy'' 30 100 (Some ''daily'')
      (Some ''2025-10-11'') (Some ''2025-10-12'') (with_metrics initialize unconverted_rows)
    = Inr \<lparr>q_metric_type = ''active-energy'', aggregation = ''daily'',
         days_requested = None, records_found = None,
         q_data = Periods [\<lparr>p_period = Some ''2025-10-11'', p_value = 160,
            p_unit = ''kcal'', p_samples = 2,
            p_first_sample = Some ''2025-10-11 08:14:00 +0100'',
            p_last_sample = Some ''2025-10-11 08:15:00 +0100'', p_stats = None\<rparr>],
         summary = Some \<lparr>summary_total = 160, average_per_period = 160, periods = 1,
            range_start = ''2025-10-11'', range_end = ''2025-10-12''\<rparr>\<rparr>
   \<and> getAppleHealthMetrics example_host ''active-energy'' 30 100 (Some ''none'')
      (Some ''2025-10-11'') (Some ''2025-10-12'') (with_metrics initialize unconverted_rows)
    = Inr \<lparr>q_metric_type = ''active-energy'', aggregation = ''none'',
         days_requested = Some 30, records_found = Some 2,
         q_data = Samples
           [\<lparr>recorded_date = Some ''2025-10-11 08:15:00 +0100'', s_value = Some 60,
              s_unit = ''kcal'', device = ''health_auto_export''\<rparr>,
            \<lparr>recorded_date = Some ''2025-10-11 08:14:00 +0100'', s_value = Some 100,
              s_unit = ''kcal'', device = ''health_auto_export''\<rparr>],
         summary = None\<rparr>"
  by code_simp

subsection \<open>C10: the end bound of a days-count query\<close>

text \<open>
  C10. When the caller does not give both dates, the end bound is today's date alone, and
  a stored timestamp that starts with today's date and goes on with a time of day sorts
  after it: the result, raw or aggregated, is the result on the table without these rows.
\<close>

theorem C10_today_excluded:
  assumes "start_date = None \<or> end_date = None"
  shows "getAppleHealthMetrics h type days limit aggregate start_date end_date d
   = getAppleHealthMetrics h type days limit aggregate start_date end_date
       (with_metrics d (filter (\<lambda>r. \<not> today_with_time h r) (health_metrics d)))"
proof -
  from assms have dr: "date_range h days start_date end_date = (days_ago h days, today h)"
    by (auto simp: date_range_def str_or_def)
  have excl: "\<not> today_with_time h r" if "where_clause it s (today h) r" for it s r
  proof
    assume t: "today_with_time h r"
    then obtain dt where dt: "metric_date r = Some dt"
      and pre: "take (length (today h)) dt = today h" and len: "length (today h) < length dt"
      by (auto simp: today_with_time_def split: option.splits)
    from pre have "dt = today h @ drop (length (today h)) dt"
      by (metis append_take_drop_id)
    moreover from len have "drop (length (today h)) dt \<noteq> []" by simp
    ultimately have "\<not> str_le dt (today h)"
      using str_le_longer by metis
    with that dt show False by (simp add: where_clause_def)
  qed
  have "metrics_for h type it days limit aggregate start_date end_date
          (filter (\<lambda>r. \<not> today_with_time h r) (health_metrics d))
        = metrics_for h type it days limit aggregate start_date end_date (health_metrics d)"
    for it
    by (rule metrics_for_filter) (simp add: dr excl)
  then show ?thesis
    by (simp add: getAppleHealthMetrics_def with_metrics_def split: option.splits)
qed

theorem C10_today_excluded_witness:
  "filter (\<lambda>r. \<not> today_with_time example_host r) two_day_rows = tl two_day_rows
   \<and> getAppleHealthMetrics example_host ''steps'' 30 100 None None None
        (with_metrics initialize two_day_rows)
      = Inr \<lparr>q_metric_type = ''steps'', aggregation = ''daily'',
         days_requested = None, records_found = None,
         q_data = Periods [\<lparr>p_period = Some ''2025-10-11'', p_value = 200,
            p_unit = ''count'', p_samples = 1,
            p_first_sample = Some ''2025-10-11 08:14:00 +0100'',
            p_last_sample = Some ''2025-10-11 08:14:00 +0100'', p_stats = None\<rparr>],
         summary = Some \<lparr>summary_total = 200, average_per_period = 200, periods = 1,
            range_start = ''2025-09-12'', range_end = ''2025-10-12''\<rparr>\<rparr>"
proof -
  have f: "filter (\<lambda>r. \<not> today_with_time example_host r) two_day_rows = tl two_day_rows"
    by code_simp
  have rest: "getAppleHealthMetrics example_host ''steps'' 30 100 None None None
        (with_metrics initialize (tl two_day_rows))
      = Inr \<lparr>q_metric_type = ''steps'', aggregation = ''daily'',
         days_requested = None, records_found = None,
         q_data = Periods [\<lparr>p_period = Some ''2025-10-11'', p_value = 200,
            p_unit = ''count'', p_samples = 1,
            p_first_sample = Some ''2025-10-11 08:14:00 +0100'',
            p_last_sample = Some ''2025-10-11 08:14:00 +0100'', p_stats = None\<rparr>],
         summary = Some \<lparr>summary_total = 200, average_per_period = 200, periods = 1,
            range_start = ''2025-09-12'', range_end = ''2025-10-12''\<rparr>\<rparr>"
    by code_simp
  from C10_today_excluded[of None None example_host "''steps''" 30 100 None
         "with_metrics initialize two_day_rows"] f rest
  show ?thesis by (simp add: with_metrics_simps)
qed

end
